theory Spec2Isabelle
  imports Main "HOL-Library.AList" "HOL-Library.Char_ord" "HOL-Library.List_Lexorder"
begin

section \<open>Memory checkpointer (servers/cu/src/domain/client/wasm.js)\<close>

subsection \<open>Limit predicates\<close>

text \<open>
  \<^verbatim>\<open>doesExceedModuleMaxMemoryWith ({ PROCESS_WASM_MEMORY_MAX_LIMIT })\<close> returns
  \<^verbatim>\<open>async ({ limit }) => limit > PROCESS_WASM_MEMORY_MAX_LIMIT\<close>, and the compute
  predicate is its twin. Limits and caps are byte and gas counts, modelled as integers;
  the first argument is the configured cap, the second the limit of the module.
\<close>

definition doesExceedModuleMaxMemoryWith :: "int \<Rightarrow> int \<Rightarrow> bool" where
  "doesExceedModuleMaxMemoryWith PROCESS_WASM_MEMORY_MAX_LIMIT limit =
     (limit > PROCESS_WASM_MEMORY_MAX_LIMIT)"

definition doesExceedModuleMaxComputeWith :: "int \<Rightarrow> int \<Rightarrow> bool" where
  "doesExceedModuleMaxComputeWith PROCESS_WASM_COMPUTE_MAX_LIMIT limit =
     (limit > PROCESS_WASM_COMPUTE_MAX_LIMIT)"

text \<open>
  Claim C10. Both limit predicates are strict: each answers true exactly when the limit is
  strictly greater than the configured cap, so a limit equal to the cap is not reported as
  exceeding it (and neither is any smaller limit).
\<close>

theorem limit_predicates_strict:
  "doesExceedModuleMaxMemoryWith cap limit = (cap < limit)
   \<and> doesExceedModuleMaxComputeWith cap limit = (cap < limit)
   \<and> doesExceedModuleMaxMemoryWith cap cap = False
   \<and> doesExceedModuleMaxComputeWith cap cap = False"
  by (simp add: doesExceedModuleMaxMemoryWith_def doesExceedModuleMaxComputeWith_def)


subsection \<open>Streaming hash of a memory snapshot\<close>

text \<open>
  \<^verbatim>\<open>hashWasmMemory (memoryStream, encoding)\<close>. The stream is the list of its chunks. The
  hasher (\<^verbatim>\<open>createHash('sha256')\<close>, fed chunk by chunk by the pipeline, read with
  \<^verbatim>\<open>digest('hex')\<close>) and the gunzip transformer are Node's, so they are parameters: a
  transformer maps the chunks written to it to the chunks it emits, or fails, which
  rejects the pipeline. The encoding is \<open>None\<close> when the argument is undefined and
  \<open>Some s\<close> when it is the string \<open>s\<close>.
\<close>

type_synonym bytes = "char list"

record 'h hasher =
  createHash :: 'h
  hash_update :: "'h \<Rightarrow> bytes \<Rightarrow> 'h"
  digest_hex :: "'h \<Rightarrow> string"

datatype hash_error = UnsupportedEncoding | PipelineFailed

text \<open>JavaScript truthiness of an optional string: undefined and the empty string are falsy.\<close>

fun truthy_string :: "string option \<Rightarrow> bool" where
  "truthy_string None = False"
| "truthy_string (Some s) = (s \<noteq> [])"

text \<open>\<^verbatim>\<open>new PassThrough()\<close> emits what it is given.\<close>

definition PassThrough :: "bytes list \<Rightarrow> bytes list option" where
  "PassThrough chunks = Some chunks"

definition hashWasmMemory ::
  "'h hasher \<Rightarrow> (bytes list \<Rightarrow> bytes list option) \<Rightarrow> bytes list \<Rightarrow> string option
     \<Rightarrow> hash_error + string" where
  "hashWasmMemory H createGunzip memoryStream encoding =
     (if truthy_string encoding \<and> encoding \<noteq> Some ''gzip'' then Inl UnsupportedEncoding
      else
        (case (if encoding = Some ''gzip'' then createGunzip else PassThrough) memoryStream of
           None \<Rightarrow> Inl PipelineFailed
         | Some chunks \<Rightarrow> Inr (digest_hex H (foldl (hash_update H) (createHash H) chunks))))"

text \<open>
  Claim C9, as amended. \<open>hashWasmMemory\<close> fails with the unsupported-encoding error for
  every non-empty encoding string other than \<open>gzip\<close>, and for no other encoding. With
  \<open>gzip\<close> the chunks go through the gunzip transformer, with an absent encoding or the
  empty string they pass through unchanged; in both cases they are fed one by one, in
  order, into the hasher, whose hex digest is the result (a failing gunzip fails the
  pipeline instead).
\<close>

theorem hashWasmMemory_encodings:
  "(hashWasmMemory H gunz chunks enc = Inl UnsupportedEncoding
      \<longleftrightarrow> enc \<noteq> None \<and> enc \<noteq> Some [] \<and> enc \<noteq> Some ''gzip'')
   \<and> hashWasmMemory H gunz chunks (Some ''gzip'') =
       (case gunz chunks of
          None \<Rightarrow> Inl PipelineFailed
        | Some out \<Rightarrow> Inr (digest_hex H (foldl (hash_update H) (createHash H) out)))
   \<and> hashWasmMemory H gunz chunks None =
       Inr (digest_hex H (foldl (hash_update H) (createHash H) chunks))
   \<and> hashWasmMemory H gunz chunks (Some []) =
       Inr (digest_hex H (foldl (hash_update H) (createHash H) chunks))"
proof -
  have unsupported: "hashWasmMemory H gunz chunks enc = Inl UnsupportedEncoding
      \<longleftrightarrow> enc \<noteq> None \<and> enc \<noteq> Some [] \<and> enc \<noteq> Some ''gzip''"
    by (cases enc) (auto simp: hashWasmMemory_def PassThrough_def split: option.splits)
  have gz: "hashWasmMemory H gunz chunks (Some ''gzip'') =
       (case gunz chunks of
          None \<Rightarrow> Inl PipelineFailed
        | Some out \<Rightarrow> Inr (digest_hex H (foldl (hash_update H) (createHash H) out)))"
    by (simp add: hashWasmMemory_def)
  have absent: "hashWasmMemory H gunz chunks None =
       Inr (digest_hex H (foldl (hash_update H) (createHash H) chunks))"
    by (simp add: hashWasmMemory_def PassThrough_def)
  have empty: "hashWasmMemory H gunz chunks (Some []) =
       Inr (digest_hex H (foldl (hash_update H) (createHash H) chunks))"
    by (simp add: hashWasmMemory_def PassThrough_def)
  from unsupported gz absent empty show ?thesis by blast
qed

text \<open>
  The hasher of the examples concatenates what it is fed, so its digest shows which bytes
  reached it; the gunzip of the examples fails on every input.
\<close>

definition concat_hasher :: "bytes hasher" where
  "concat_hasher = \<lparr>createHash = [], hash_update = (\<lambda>h c. h @ c), digest_hex = (\<lambda>h. h)\<rparr>"

theorem hashWasmMemory_encodings_witness:
  "hashWasmMemory concat_hasher (\<lambda>_. None) [''ab'', ''c''] (Some ''br'') = Inl UnsupportedEncoding
   \<and> hashWasmMemory concat_hasher (\<lambda>_. None) [''ab'', ''c''] (Some ''gzip'') = Inl PipelineFailed
   \<and> hashWasmMemory concat_hasher (\<lambda>_. None) [''ab'', ''c''] None = Inr ''abc''"
  using hashWasmMemory_encodings [of concat_hasher "\<lambda>_. None" "[''ab'', ''c'']" "Some ''br''"]
  by (simp add: concat_hasher_def)

text \<open>
  The claim as stated, that every encoding other than an absent one and \<open>gzip\<close> fails, is
  false at the empty string: it is falsy, so the guard
  \<^verbatim>\<open>encoding && encoding !== 'gzip'\<close> lets it through and the stream is hashed as it is.
\<close>

theorem hashWasmMemory_empty_encoding_counterexample:
  "\<not> (\<forall>enc. enc \<noteq> None \<and> enc \<noteq> Some ''gzip'' \<longrightarrow>
         hashWasmMemory concat_hasher (\<lambda>_. None) [''ab'', ''c''] enc = Inl UnsupportedEncoding)"
proof
  assume "\<forall>enc. enc \<noteq> None \<and> enc \<noteq> Some ''gzip'' \<longrightarrow>
         hashWasmMemory concat_hasher (\<lambda>_. None) [''ab'', ''c''] enc = Inl UnsupportedEncoding"
  then have "hashWasmMemory concat_hasher (\<lambda>_. None) [''ab'', ''c''] (Some []) = Inl UnsupportedEncoding"
    by simp
  then show False
    by (simp add: hashWasmMemory_def PassThrough_def)
qed


section \<open>JavaScript values\<close>

text \<open>
  The values the worker and the codec handle. A number is the value of an integer literal
  (\<open>JNum n\<close>: the integer \<open>n\<close> itself when it is a double, as every integer up to
  \<open>2\<^sup>5\<^sup>3\<close> in absolute value is, and otherwise the double nearest to it, an infinity
  beyond the largest double), or \<^verbatim>\<open>NaN\<close> (\<open>JNaN\<close>), or any other number (\<open>JFloat\<close>: a
  fraction, kept as the text that \<^verbatim>\<open>String(n)\<close> gives; arithmetic on fractions is not
  modelled). A string is a list of bytes, so the model
  covers ASCII text, where UTF-16 code units, UTF-8 bytes and characters coincide.
  \<open>JBytes\<close> is a \<^verbatim>\<open>Uint8Array\<close> (Node's \<^verbatim>\<open>Buffer\<close>). An object is the list of its
  own enumerable properties in the order \<^verbatim>\<open>Object.entries\<close> lists them, each key once.
\<close>

datatype jsval =
    JUndefined
  | JNull
  | JBool bool
  | JNum int
  | JFloat string
  | JNaN
  | JStr string
  | JSym "string option"
  | JBytes bytes
  | JFun
  | JArr "jsval list"
  | JObj "(string \<times> jsval) list"

fun truthy :: "jsval \<Rightarrow> bool" where
  "truthy JUndefined = False"
| "truthy JNull = False"
| "truthy (JBool b) = b"
| "truthy (JNum n) = (n \<noteq> 0)"
| "truthy JNaN = False"
| "truthy (JStr s) = (s \<noteq> [])"
| "truthy _ = True"

text \<open>
  The double an integer literal denotes: the integer itself when its binary numeral has at
  most 53 digits, and otherwise the nearest multiple of the power of two that leaves 53
  digits, the even one of two that are equally near. From \<open>2\<^sup>1\<^sup>0\<^sup>2\<^sup>4 - 2\<^sup>9\<^sup>7\<^sup>0\<close> on that is
  more than the largest double \<^verbatim>\<open>Number.MAX_VALUE\<close>, and the number is an infinity, which
  \<^verbatim>\<open>Number.isInteger\<close> does not accept.
\<close>

fun bit_count :: "nat \<Rightarrow> nat" where
  "bit_count x = (if x < 2 then 1 else Suc (bit_count (x div 2)))"

declare bit_count.simps [simp del]

definition nearest_double :: "nat \<Rightarrow> nat" where
  "nearest_double x =
     (if bit_count x \<le> 53 then x
      else (let e = bit_count x - 53;
                q = x div 2 ^ e;
                r = x mod 2 ^ e;
                half = 2 ^ (e - 1)
            in (if half < r \<or> (r = half \<and> odd q) then q + 1 else q) * 2 ^ e))"

definition Number_MAX_VALUE :: nat where
  "Number_MAX_VALUE = (2 ^ 53 - 1) * 2 ^ 971"

definition Number_isFinite :: "int \<Rightarrow> bool" where
  "Number_isFinite n = (nearest_double (nat \<bar>n\<bar>) \<le> Number_MAX_VALUE)"

definition Number_isSafeInteger :: "int \<Rightarrow> bool" where
  "Number_isSafeInteger n = (\<bar>n\<bar> \<le> 9007199254740991)"

text \<open>
  \<^verbatim>\<open>String(n)\<close> and \<^verbatim>\<open>`${n}`\<close> of an integer-valued number. In the safe range
  (\<^verbatim>\<open>Number.isSafeInteger\<close>, at most \<open>2\<^sup>5\<^sup>3 - 1\<close> in absolute value) it is the decimal
  numeral: the digits, most significant first, after a minus sign when the number is
  negative. Beyond the safe range \<^verbatim>\<open>Number::toString\<close> takes the fewest digits \<open>s\<close> that,
  followed by zeros up to \<open>n\<close> digits in all, read back as the same double (the nearest
  such when there are several), and writes them followed by the zeros when \<open>n\<close> is at most
  21 and in exponent notation otherwise: \<^verbatim>\<open>String(2 ** 60)\<close> is
  \<^verbatim>\<open>'1152921504606847000'\<close> and \<^verbatim>\<open>String(1e21)\<close> is \<^verbatim>\<open>'1e+21'\<close>. \<open>shortest_at v n k\<close>
  looks for \<open>k\<close> digits, below and above the first \<open>k\<close> digits of \<open>v\<close>; \<open>shortest\<close> tries
  \<open>k = 1, 2, ...\<close> up to the digits of \<open>v\<close> itself.
\<close>

definition digit_char :: "nat \<Rightarrow> char" where
  "digit_char d = ''0123456789'' ! d"

fun digits :: "nat \<Rightarrow> string" where
  "digits n = (if n < 10 then [digit_char n] else digits (n div 10) @ [digit_char (n mod 10)])"

declare digits.simps [simp del]

definition shortest_at :: "nat \<Rightarrow> nat \<Rightarrow> nat \<Rightarrow> (nat \<times> nat) option" where
  "shortest_at v n k =
     (let lo = v div 10 ^ (n - k);
          below = lo * 10 ^ (n - k);
          above = (lo + 1) * 10 ^ (n - k);
          up = (if lo + 1 = 10 ^ k then (10 ^ (k - 1), Suc n) else (lo + 1, n))
      in if nearest_double below = v \<and> nearest_double above = v
         then Some (if v - below \<le> above - v then (lo, n) else up)
         else if nearest_double below = v then Some (lo, n)
         else if nearest_double above = v then Some up
         else None)"

function shortest :: "nat \<Rightarrow> nat \<Rightarrow> nat \<Rightarrow> nat \<times> nat" where
  "shortest v n k =
     (if n \<le> k then (v, n)
      else (case shortest_at v n k of
              Some r \<Rightarrow> r
            | None \<Rightarrow> shortest v n (Suc k)))"
  by pat_completeness auto

termination
  by (relation "measure (\<lambda>(v, n, k). n - k)") auto

declare shortest.simps [simp del]

definition Number_text :: "nat \<Rightarrow> string" where
  "Number_text v =
     (case shortest v (length (digits v)) 1 of
        (s, n) \<Rightarrow>
          if n \<le> 21 then digits s @ replicate (n - length (digits s)) CHR ''0''
          else (case digits s of
                  [] \<Rightarrow> []
                | d # ds \<Rightarrow> if ds = [] then [d] else d # CHR ''.'' # ds)
               @ ''e+'' @ digits (n - 1))"

definition String_int :: "int \<Rightarrow> string" where
  "String_int i =
     (if Number_isSafeInteger i
      then (if i < 0 then CHR ''-'' # digits (nat (- i)) else digits (nat i))
      else (if i < 0 then ''-'' else [])
           @ (if Number_isFinite i then Number_text (nearest_double (nat \<bar>i\<bar>))
              else ''Infinity''))"

text \<open>Reading a decimal numeral back, to state that \<open>digits\<close> writes the number it is given.\<close>

definition digit_of :: "char \<Rightarrow> nat" where
  "digit_of c = of_char c - 48"

definition decimal_of :: "string \<Rightarrow> nat" where
  "decimal_of s = foldl (\<lambda>a c. 10 * a + digit_of c) 0 s"

lemma digit_of_digit_char: "d < 10 \<Longrightarrow> digit_of (digit_char d) = d"
proof -
  assume "d < 10"
  then have "d \<in> {0, 1, 2, 3, 4, 5, 6, 7, 8, 9}" by auto
  then show ?thesis
    by (auto simp: digit_of_def digit_char_def)
qed

lemma decimal_of_digits: "decimal_of (digits n) = n"
proof (induction n rule: digits.induct)
  case (1 n)
  show ?case
  proof (cases "n < 10")
    case True
    then show ?thesis
      by (simp add: digits.simps [of n] decimal_of_def digit_of_digit_char)
  next
    case False
    with "1" have ih: "decimal_of (digits (n div 10)) = n div 10" by simp
    have "decimal_of (digits n) = 10 * decimal_of (digits (n div 10)) + digit_of (digit_char (n mod 10))"
      using False by (simp add: digits.simps [of n] decimal_of_def)
    also have "\<dots> = 10 * (n div 10) + n mod 10"
      by (simp add: ih digit_of_digit_char)
    finally show ?thesis by simp
  qed
qed


text \<open>A safe integer is a double, and so finite.\<close>

lemma bit_count_le: "0 < k \<Longrightarrow> x < 2 ^ k \<Longrightarrow> bit_count x \<le> k"
proof (induction k arbitrary: x)
  case 0
  then show ?case by simp
next
  case (Suc k)
  show ?case
  proof (cases "x < 2")
    case True
    then show ?thesis by (simp add: bit_count.simps [of x])
  next
    case False
    with Suc.prems(2) have "0 < k"
      by (cases k) simp_all
    moreover from Suc.prems(2) have "x div 2 < 2 ^ k"
      by simp
    ultimately have "bit_count (x div 2) \<le> k"
      by (rule Suc.IH)
    with False show ?thesis by (simp add: bit_count.simps [of x])
  qed
qed

lemma nearest_double_safe: "x < 2 ^ 53 \<Longrightarrow> nearest_double x = x"
  using bit_count_le [of 53 x] by (simp add: nearest_double_def)

lemma Number_isFinite_safe: "\<bar>n\<bar> \<le> 9007199254740991 \<Longrightarrow> Number_isFinite n"
proof -
  assume safe: "\<bar>n\<bar> \<le> 9007199254740991"
  then have small: "nat \<bar>n\<bar> < 2 ^ 53" by simp
  then have "nearest_double (nat \<bar>n\<bar>) = nat \<bar>n\<bar>"
    by (rule nearest_double_safe)
  moreover have "(2::nat) ^ 53 \<le> Number_MAX_VALUE"
    by (simp add: Number_MAX_VALUE_def)
  ultimately show ?thesis
    using small by (simp add: Number_isFinite_def)
qed

lemmas String_eval =
  String_int_def Number_isSafeInteger_def Number_isFinite_def Number_MAX_VALUE_def
  Number_text_def shortest.simps shortest_at_def nearest_double_def bit_count.simps
  digits.simps digit_char_def Let_def

lemma String_int_beyond:
  "String_int 1152921504606846976 = ''1152921504606847000''"
  "String_int 1000000000000000000000 = ''1e+21''"
  "String_int (- 1500000000000000000000) = ''-1.5e+21''"
  by (simp_all add: String_eval)


section \<open>Execution worker (servers/cu/src/domain/client/worker.js)\<close>

subsection \<open>Ramda's readers\<close>

text \<open>
  \<^verbatim>\<open>obj[key]\<close> for the keys the worker reads (\<^verbatim>\<open>Memory\<close>, \<^verbatim>\<open>Error\<close>,
  \<^verbatim>\<open>Messages\<close>, \<^verbatim>\<open>Spawns\<close>, \<^verbatim>\<open>Output\<close>, \<^verbatim>\<open>GasUsed\<close>): a property of an object
  when it has one, undefined otherwise and on every value that is not an object.
  \<^verbatim>\<open>defaultTo\<close> replaces null, undefined and \<^verbatim>\<open>NaN\<close> (\<open>defaulted\<close>);
  \<^verbatim>\<open>pathOr\<close> with a path of one key and \<^verbatim>\<open>propOr\<close> are \<^verbatim>\<open>defaultTo\<close> after the
  read.
\<close>

fun prop_of :: "string \<Rightarrow> jsval \<Rightarrow> jsval" where
  "prop_of k (JObj kvs) = (case map_of kvs k of None \<Rightarrow> JUndefined | Some v \<Rightarrow> v)"
| "prop_of k _ = JUndefined"

fun defaulted :: "jsval \<Rightarrow> bool" where
  "defaulted JUndefined = True"
| "defaulted JNull = True"
| "defaulted JNaN = True"
| "defaulted _ = False"

definition defaultTo :: "jsval \<Rightarrow> jsval \<Rightarrow> jsval" where
  "defaultTo d v = (if defaulted v then d else v)"

definition pathOr :: "jsval \<Rightarrow> string \<Rightarrow> jsval \<Rightarrow> jsval" where
  "pathOr d k obj = defaultTo d (prop_of k obj)"

definition propOr :: "jsval \<Rightarrow> string \<Rightarrow> jsval \<Rightarrow> jsval" where
  "propOr d k obj = defaultTo d (prop_of k obj)"

subsection \<open>Normalising a handler's output\<close>

record EvaluationOutput =
  Memory :: jsval
  Error :: jsval
  Messages :: jsval
  Spawns :: jsval
  Output :: jsval
  GasUsed :: jsval

text \<open>
  The \<^verbatim>\<open>cond\<close> on \<^verbatim>\<open>Output\<close>: a string stays, then whatever \<^verbatim>\<open>is(Object)\<close> accepts
  (objects, arrays, byte arrays, functions) stays, then a number becomes its string, and
  the last branch keeps everything else.
\<close>

fun stringOrObject :: "jsval \<Rightarrow> jsval" where
  "stringOrObject (JStr s) = JStr s"
| "stringOrObject (JObj kvs) = JObj kvs"
| "stringOrObject (JArr vs) = JArr vs"
| "stringOrObject (JBytes b) = JBytes b"
| "stringOrObject JFun = JFun"
| "stringOrObject (JNum n) = JStr (String_int n)"
| "stringOrObject (JFloat s) = JStr s"
| "stringOrObject JNaN = JStr ''NaN''"
| "stringOrObject v = v"

definition mergeOutput :: "jsval \<Rightarrow> jsval \<Rightarrow> EvaluationOutput" where
  "mergeOutput prevMemory raw =
     (let out = defaultTo (JObj []) raw in
      \<lparr> Memory = (if truthy (pathOr JUndefined ''Error'' out) then prevMemory
                  else propOr prevMemory ''Memory'' out),
        Error = pathOr JUndefined ''Error'' out,
        Messages = pathOr (JArr []) ''Messages'' out,
        Spawns = pathOr (JArr []) ''Spawns'' out,
        Output = stringOrObject (pathOr (JStr []) ''Output'' out),
        GasUsed = pathOr JUndefined ''GasUsed'' out \<rparr>)"

subsection \<open>Caches, files and the gateway\<close>

text \<open>
  \<^verbatim>\<open>LRUCache({ max })\<close>: the entries, most recently used first, and the capacity.
  \<^verbatim>\<open>get\<close> moves the entry it finds to the front; \<^verbatim>\<open>set\<close> puts the entry at the front
  and drops what no longer fits.
\<close>

record ('k, 'v) LRUCache =
  lru_max :: nat
  lru_entries :: "('k \<times> 'v) list"

definition lru_get :: "'k \<Rightarrow> ('k, 'v) LRUCache \<Rightarrow> 'v option \<times> ('k, 'v) LRUCache" where
  "lru_get k c =
     (case map_of (lru_entries c) k of
        None \<Rightarrow> (None, c)
      | Some v \<Rightarrow> (Some v, c\<lparr>lru_entries := (k, v) # filter (\<lambda>e. fst e \<noteq> k) (lru_entries c)\<rparr>))"

definition lru_set :: "'k \<Rightarrow> 'v \<Rightarrow> ('k, 'v) LRUCache \<Rightarrow> ('k, 'v) LRUCache" where
  "lru_set k v c =
     c\<lparr>lru_entries := take (lru_max c) ((k, v) # filter (\<lambda>e. fst e \<noteq> k) (lru_entries c))\<rparr>"

text \<open>
  What a handler does with \<^verbatim>\<open>(Memory, message, AoGlobal)\<close>: it returns a value or throws
  one (a rejected promise counts as a throw: \<^verbatim>\<open>fromPromise\<close> turns both into
  \<^verbatim>\<open>Rejected\<close>).
\<close>

datatype outcome = Returned jsval | Threw jsval

type_synonym handler = "jsval \<Rightarrow> jsval \<Rightarrow> jsval \<Rightarrow> outcome"

text \<open>
  A response of \<^verbatim>\<open>fetch\<close>: its status and the bytes of its body. \<^verbatim>\<open>res.ok\<close> is true for
  the statuses from 200 to 299.
\<close>

record response =
  status :: nat
  res_body :: bytes

definition ok :: "response \<Rightarrow> bool" where
  "ok res = (200 \<le> status res \<and> status res \<le> 299)"

text \<open>
  The collaborators the worker is built with. \<^verbatim>\<open>fetch\<close> answers a URL with a response or
  fails (\<open>None\<close>); \<^verbatim>\<open>WebAssembly.compileStreaming\<close> compiles a binary or rejects;
  \<^verbatim>\<open>bootstrapWasmInstance\<close> instantiates a module under a gas and a memory limit or
  rejects; \<open>writable\<close> tells whether a write to a path succeeds.
\<close>

record 'm collaborators =
  GATEWAY_URL :: string
  DIR :: string
  fetch :: "string \<Rightarrow> response option"
  createGzip :: "bytes \<Rightarrow> bytes"
  createGunzip :: "bytes \<Rightarrow> bytes option"
  compileStreaming :: "bytes \<Rightarrow> 'm option"
  bootstrapWasmInstance :: "'m \<Rightarrow> int \<Rightarrow> int \<Rightarrow> handler option"
  writable :: "string \<Rightarrow> bool"

text \<open>
  What the worker changes: the two caches, the files of the binary directory, and (kept
  for the claims about the gateway) the URLs requested, in order.
\<close>

record 'm worker =
  wasmModuleCache :: "(string, 'm) LRUCache"
  wasmInstanceCache :: "(string, handler) LRUCache"
  files :: "string \<rightharpoonup> bytes"
  requested :: "string list"

datatype rejection =
    GatewayError nat bytes
  | FetchFailed
  | LoadFailed
  | BootstrapFailed

definition wasm_file :: "'m collaborators \<Rightarrow> string \<Rightarrow> string" where
  "wasm_file env moduleId = DIR env @ ''/'' @ moduleId @ ''.wasm.gz''"

text \<open>
  \<^verbatim>\<open>readWasmFileWith\<close> followed by the compile of \<^verbatim>\<open>maybeStoredBinary\<close>: the file is read
  and gunzipped as a stream, so a missing file, a broken archive and a rejected compile
  all show as the rejection of \<^verbatim>\<open>compileStreaming\<close>, which \<^verbatim>\<open>bimap\<close> turns into the
  arguments of the next source: \<open>None\<close> here.
\<close>

definition maybeStoredBinary :: "'m collaborators \<Rightarrow> 'm worker \<Rightarrow> string \<Rightarrow> 'm option" where
  "maybeStoredBinary env w moduleId =
     (case files w (wasm_file env moduleId) of
        None \<Rightarrow> None
      | Some zipped \<Rightarrow>
          (case createGunzip env zipped of
             None \<Rightarrow> None
           | Some binary \<Rightarrow> compileStreaming env binary))"

text \<open>
  \<^verbatim>\<open>writeWasmFileWith\<close>: the stream goes through gzip into the file; a failure is logged
  and swallowed.
\<close>

definition writeWasmFile :: "'m collaborators \<Rightarrow> string \<Rightarrow> bytes \<Rightarrow> 'm worker \<Rightarrow> 'm worker" where
  "writeWasmFile env moduleId wasmStream w =
     (if writable env (wasm_file env moduleId)
      then w\<lparr>files := (files w)(wasm_file env moduleId \<mapsto> createGzip env wasmStream)\<rparr>
      else w)"

text \<open>
  \<^verbatim>\<open>streamTransactionDataWith\<close>: one GET of \<^verbatim>\<open>${GATEWAY_URL}/raw/${id}\<close>; a response that
  is not ok is thrown as \<^verbatim>\<open>${res.status}: ${await res.text()}\<close>.
\<close>

definition streamTransactionData ::
  "'m collaborators \<Rightarrow> string \<Rightarrow> 'm worker \<Rightarrow> (rejection + response) \<times> 'm worker" where
  "streamTransactionData env ident w =
     (let url = GATEWAY_URL env @ ''/raw/'' @ ident;
          w' = w\<lparr>requested := requested w @ [url]\<rparr>
      in case fetch env url of
           None \<Rightarrow> (Inl FetchFailed, w')
         | Some res \<Rightarrow> if ok res then (Inr res, w') else (Inl (GatewayError (status res) (res_body res)), w'))"

text \<open>
  \<^verbatim>\<open>loadTransaction\<close>: the body is tee'd; one branch is written to the file, the other is
  compiled, and \<^verbatim>\<open>Promise.all\<close> waits for both, so the file is written whether or not the
  compile succeeds.
\<close>

definition loadTransaction ::
  "'m collaborators \<Rightarrow> string \<Rightarrow> 'm worker \<Rightarrow> (rejection + 'm) \<times> 'm worker" where
  "loadTransaction env moduleId w =
     (case streamTransactionData env moduleId w of
        (Inl e, w') \<Rightarrow> (Inl e, w')
      | (Inr res, w') \<Rightarrow>
          (let w'' = writeWasmFile env moduleId (res_body res) w' in
           case compileStreaming env (res_body res) of
             None \<Rightarrow> (Inl LoadFailed, w'')
           | Some wasmModule \<Rightarrow> (Inr wasmModule, w'')))"

text \<open>
  The module of \<^verbatim>\<open>loadInstance\<close>: \<^verbatim>\<open>maybeCachedModule\<close>, else \<^verbatim>\<open>maybeStoredBinary\<close>,
  else \<^verbatim>\<open>loadTransaction\<close>; a module that was compiled is put into the cache.
\<close>

definition loadModule ::
  "'m collaborators \<Rightarrow> string \<Rightarrow> 'm worker \<Rightarrow> (rejection + 'm) \<times> 'm worker" where
  "loadModule env moduleId w =
     (case lru_get moduleId (wasmModuleCache w) of
        (Some wasm, cache) \<Rightarrow> (Inr wasm, w\<lparr>wasmModuleCache := cache\<rparr>)
      | (None, cache) \<Rightarrow>
          (case (case maybeStoredBinary env w moduleId of
                   Some wasmModule \<Rightarrow> (Inr wasmModule, w)
                 | None \<Rightarrow> loadTransaction env moduleId w) of
             (Inl e, w') \<Rightarrow> (Inl e, w')
           | (Inr wasmModule, w') \<Rightarrow>
               (Inr wasmModule,
                w'\<lparr>wasmModuleCache := lru_set moduleId wasmModule (wasmModuleCache w')\<rparr>)))"

definition loadInstance ::
  "'m collaborators \<Rightarrow> string \<Rightarrow> string \<Rightarrow> int \<Rightarrow> int \<Rightarrow> 'm worker
     \<Rightarrow> (rejection + handler) \<times> 'm worker" where
  "loadInstance env streamId moduleId gas memLimit w =
     (case loadModule env moduleId w of
        (Inl e, w') \<Rightarrow> (Inl e, w')
      | (Inr wasmModule, w') \<Rightarrow>
          (case bootstrapWasmInstance env wasmModule gas memLimit of
             None \<Rightarrow> (Inl BootstrapFailed, w')
           | Some wasmInstance \<Rightarrow>
               (Inr wasmInstance,
                w'\<lparr>wasmInstanceCache := lru_set streamId wasmInstance (wasmInstanceCache w')\<rparr>)))"

text \<open>
  The function \<^verbatim>\<open>evaluateWith\<close> returns. \<open>Inl\<close> is a rejected promise, \<open>Inr\<close> a resolved
  one. A thrown value \<open>err\<close> becomes the output \<^verbatim>\<open>{ Error: err }\<close> before it is merged.
\<close>

record args =
  streamId :: string
  moduleId :: string
  gas :: int
  memLimit :: int
  prevMemory :: jsval
  message :: jsval
  AoGlobal :: jsval

definition invoke :: "handler \<Rightarrow> args \<Rightarrow> EvaluationOutput" where
  "invoke wasmInstance a =
     (case wasmInstance (prevMemory a) (message a) (AoGlobal a) of
        Threw err \<Rightarrow> mergeOutput (prevMemory a) (JObj [(''Error'', err)])
      | Returned out \<Rightarrow> mergeOutput (prevMemory a) out)"

definition maybeCachedInstance :: "args \<Rightarrow> 'm worker \<Rightarrow> handler option \<times> 'm worker" where
  "maybeCachedInstance a w =
     (case lru_get (streamId a) (wasmInstanceCache w) of
        (r, cache) \<Rightarrow> (r, w\<lparr>wasmInstanceCache := cache\<rparr>))"

text \<open>\<^verbatim>\<open>maybeCachedInstance(...).bichain(loadInstance, Resolved)\<close>: the instance to call.\<close>

definition resolveInstance ::
  "'m collaborators \<Rightarrow> args \<Rightarrow> 'm worker \<Rightarrow> (rejection + handler) \<times> 'm worker" where
  "resolveInstance env a w =
     (case maybeCachedInstance a w of
        (Some wasmInstance, w') \<Rightarrow> (Inr wasmInstance, w')
      | (None, w') \<Rightarrow> loadInstance env (streamId a) (moduleId a) (gas a) (memLimit a) w')"

definition evaluate ::
  "'m collaborators \<Rightarrow> args \<Rightarrow> 'm worker \<Rightarrow> (rejection + EvaluationOutput) \<times> 'm worker" where
  "evaluate env a w =
     (case resolveInstance env a w of
        (Inl e, w') \<Rightarrow> (Inl e, w')
      | (Inr wasmInstance, w') \<Rightarrow> (Inr (invoke wasmInstance a), w'))"

subsection \<open>The normalised output\<close>

text \<open>
  The decimal string form of an integer, in the words of the specification: a string of
  digits that does not start with a zero unless it is \<^verbatim>\<open>0\<close>, reads as the number, and, for
  a negative number, follows a minus sign.
\<close>

definition decimal_numeral :: "string \<Rightarrow> nat \<Rightarrow> bool" where
  "decimal_numeral s n =
     (s \<noteq> [] \<and> list_all (\<lambda>c. c \<in> set ''0123456789'') s
      \<and> (s = ''0'' \<or> hd s \<noteq> CHR ''0'') \<and> decimal_of s = n)"

definition decimal_form :: "string \<Rightarrow> int \<Rightarrow> bool" where
  "decimal_form s i =
     (if i < 0 then s \<noteq> [] \<and> hd s = CHR ''-'' \<and> decimal_numeral (tl s) (nat (- i))
      else decimal_numeral s (nat i))"

text \<open>\<^verbatim>\<open>typeof v === 'number'\<close>.\<close>

fun is_Number :: "jsval \<Rightarrow> bool" where
  "is_Number (JNum n) = True"
| "is_Number (JFloat s) = True"
| "is_Number JNaN = True"
| "is_Number _ = False"

lemma digit_char_digit: "d < 10 \<Longrightarrow> digit_char d \<in> set ''0123456789''"
proof -
  assume "d < 10"
  then have "d \<in> {0, 1, 2, 3, 4, 5, 6, 7, 8, 9}" by auto
  then show ?thesis
    by (auto simp: digit_char_def)
qed

lemma digit_char_zero: "d < 10 \<Longrightarrow> digit_char d = CHR ''0'' \<Longrightarrow> d = 0"
proof -
  assume "d < 10" and z: "digit_char d = CHR ''0''"
  then have "d \<in> {0, 1, 2, 3, 4, 5, 6, 7, 8, 9}" by auto
  with z show ?thesis
    by (auto simp: digit_char_def)
qed

lemma digits_shape:
  "digits n \<noteq> [] \<and> list_all (\<lambda>c. c \<in> set ''0123456789'') (digits n)
   \<and> (hd (digits n) = CHR ''0'' \<longrightarrow> n = 0)"
proof (induction n rule: digits.induct)
  case (1 n)
  show ?case
  proof (cases "n < 10")
    case True
    then show ?thesis
      using digit_char_digit [of n] digit_char_zero [of n]
      by (simp add: digits.simps [of n])
  next
    case False
    with "1" have ih: "digits (n div 10) \<noteq> []"
      "list_all (\<lambda>c. c \<in> set ''0123456789'') (digits (n div 10))"
      "hd (digits (n div 10)) = CHR ''0'' \<longrightarrow> n div 10 = 0"
      by simp_all
    have eq: "digits n = digits (n div 10) @ [digit_char (n mod 10)]"
      using False by (simp add: digits.simps [of n])
    have last: "digit_char (n mod 10) \<in> set ''0123456789''"
      by (rule digit_char_digit) simp
    have "n div 10 \<noteq> 0" using False by simp
    with ih(3) have "hd (digits (n div 10)) \<noteq> CHR ''0''" by blast
    with ih(1) have "hd (digits n) \<noteq> CHR ''0''" by (simp add: eq)
    moreover have "digits n \<noteq> []" by (simp add: eq)
    moreover have "list_all (\<lambda>c. c \<in> set ''0123456789'') (digits n)"
      using ih(2) last unfolding eq by simp
    ultimately show ?thesis by blast
  qed
qed

lemma digits_zero: "digits 0 = ''0''"
  by (simp add: digits.simps [of 0] digit_char_def)

lemma decimal_numeral_digits: "decimal_numeral (digits n) n"
proof -
  have "digits n = ''0'' \<or> hd (digits n) \<noteq> CHR ''0''"
  proof (cases "hd (digits n) = CHR ''0''")
    case True
    with digits_shape [of n] have "n = 0" by blast
    then show ?thesis by (simp add: digits_zero)
  next
    case False
    then show ?thesis by simp
  qed
  with digits_shape [of n] decimal_of_digits [of n] show ?thesis
    unfolding decimal_numeral_def by blast
qed

lemma decimal_form_String_int:
  assumes "Number_isSafeInteger n"
  shows "decimal_form (String_int n) n"
proof (cases "n < 0")
  case True
  with assms have "String_int n = CHR ''-'' # digits (nat (- n))"
    by (simp add: String_int_def)
  with True decimal_numeral_digits [of "nat (- n)"] show ?thesis
    by (simp add: decimal_form_def)
next
  case False
  with assms have "String_int n = digits (nat n)"
    by (simp add: String_int_def)
  with False decimal_numeral_digits [of "nat n"] show ?thesis
    by (simp add: decimal_form_def)
qed

lemma mergeOutput_defaulted:
  "defaulted raw \<Longrightarrow> mergeOutput pm raw = mergeOutput pm (JObj [])"
  by (simp add: mergeOutput_def defaultTo_def)

lemma prop_of_defaulted: "defaulted raw \<Longrightarrow> prop_of k raw = JUndefined"
  by (cases raw) simp_all

lemma mergeOutput_field:
  "Messages (mergeOutput pm raw) = defaultTo (JArr []) (prop_of ''Messages'' raw)"
  "Spawns (mergeOutput pm raw) = defaultTo (JArr []) (prop_of ''Spawns'' raw)"
  "Output (mergeOutput pm raw) = stringOrObject (defaultTo (JStr []) (prop_of ''Output'' raw))"
  "Error (mergeOutput pm raw) = defaultTo JUndefined (prop_of ''Error'' raw)"
  by (cases "defaulted raw"; simp add: mergeOutput_def Let_def pathOr_def defaultTo_def prop_of_defaulted)+

lemma stringOrObject_other:
  "\<not> defaulted v \<Longrightarrow> \<not> is_Number v \<Longrightarrow> stringOrObject v = v"
  by (cases v) simp_all

text \<open>
  Claim C8, as the code has it. Whatever the handler returned, an absent output included,
  the merged output has \<open>Messages\<close> and \<open>Spawns\<close> equal to the empty array and \<open>Output\<close>
  equal to the empty string when the raw output has none, where \<^verbatim>\<open>pathOr\<close> counts a field
  holding null, undefined or \<^verbatim>\<open>NaN\<close> as missing (\<open>defaulted\<close>); a field that is present is
  kept. An \<open>Output\<close> that is an integer becomes the string \<^verbatim>\<open>String\<close> gives, which in the
  safe range is its decimal string form; any other number but \<^verbatim>\<open>NaN\<close> becomes the text
  \<^verbatim>\<open>String\<close> gives for it; a string, an object and every other value that is not a number
  is returned as it is.
\<close>

theorem mergeOutput_normalises:
  "mergeOutput pm JUndefined =
     \<lparr>Memory = pm, Error = JUndefined, Messages = JArr [], Spawns = JArr [],
      Output = JStr [], GasUsed = JUndefined\<rparr>
   \<and> (defaulted (prop_of ''Messages'' raw) \<longrightarrow> Messages (mergeOutput pm raw) = JArr [])
   \<and> (\<not> defaulted (prop_of ''Messages'' raw) \<longrightarrow>
        Messages (mergeOutput pm raw) = prop_of ''Messages'' raw)
   \<and> (defaulted (prop_of ''Spawns'' raw) \<longrightarrow> Spawns (mergeOutput pm raw) = JArr [])
   \<and> (\<not> defaulted (prop_of ''Spawns'' raw) \<longrightarrow>
        Spawns (mergeOutput pm raw) = prop_of ''Spawns'' raw)
   \<and> (defaulted (prop_of ''Output'' raw) \<longrightarrow> Output (mergeOutput pm raw) = JStr [])
   \<and> (prop_of ''Output'' raw = JNum n \<longrightarrow> Output (mergeOutput pm raw) = JStr (String_int n))
   \<and> (Number_isSafeInteger n \<longrightarrow> decimal_form (String_int n) n)
   \<and> (prop_of ''Output'' raw = JFloat t \<longrightarrow> Output (mergeOutput pm raw) = JStr t)
   \<and> (prop_of ''Output'' raw = JStr s \<longrightarrow> Output (mergeOutput pm raw) = JStr s)
   \<and> (prop_of ''Output'' raw = JObj kvs \<longrightarrow> Output (mergeOutput pm raw) = JObj kvs)
   \<and> (\<not> defaulted (prop_of ''Output'' raw) \<and> \<not> is_Number (prop_of ''Output'' raw) \<longrightarrow>
        Output (mergeOutput pm raw) = prop_of ''Output'' raw)"
proof -
  have absent: "mergeOutput pm JUndefined =
     \<lparr>Memory = pm, Error = JUndefined, Messages = JArr [], Spawns = JArr [],
      Output = JStr [], GasUsed = JUndefined\<rparr>"
    by (simp add: mergeOutput_def Let_def pathOr_def propOr_def defaultTo_def)
  have msgs: "defaulted (prop_of ''Messages'' raw) \<longrightarrow> Messages (mergeOutput pm raw) = JArr []"
    "\<not> defaulted (prop_of ''Messages'' raw) \<longrightarrow>
        Messages (mergeOutput pm raw) = prop_of ''Messages'' raw"
    by (simp_all add: mergeOutput_field defaultTo_def)
  have spawns: "defaulted (prop_of ''Spawns'' raw) \<longrightarrow> Spawns (mergeOutput pm raw) = JArr []"
    "\<not> defaulted (prop_of ''Spawns'' raw) \<longrightarrow>
        Spawns (mergeOutput pm raw) = prop_of ''Spawns'' raw"
    by (simp_all add: mergeOutput_field defaultTo_def)
  have out: "defaulted (prop_of ''Output'' raw) \<longrightarrow> Output (mergeOutput pm raw) = JStr []"
    "prop_of ''Output'' raw = JNum n \<longrightarrow> Output (mergeOutput pm raw) = JStr (String_int n)"
    "prop_of ''Output'' raw = JFloat t \<longrightarrow> Output (mergeOutput pm raw) = JStr t"
    "prop_of ''Output'' raw = JStr s \<longrightarrow> Output (mergeOutput pm raw) = JStr s"
    "prop_of ''Output'' raw = JObj kvs \<longrightarrow> Output (mergeOutput pm raw) = JObj kvs"
    by (simp_all add: mergeOutput_field defaultTo_def)
  have other: "\<not> defaulted (prop_of ''Output'' raw) \<and> \<not> is_Number (prop_of ''Output'' raw) \<longrightarrow>
        Output (mergeOutput pm raw) = prop_of ''Output'' raw"
    by (simp add: mergeOutput_field defaultTo_def stringOrObject_other)
  have dec: "Number_isSafeInteger n \<longrightarrow> decimal_form (String_int n) n"
    by (simp add: decimal_form_String_int)
  from absent msgs spawns out other dec show ?thesis by blast
qed

theorem mergeOutput_normalises_witness:
  "Messages (mergeOutput JNull (JObj [(''Output'', JNum 2)])) = JArr []
   \<and> Spawns (mergeOutput JNull (JObj [(''Output'', JNum 2)])) = JArr []
   \<and> Output (mergeOutput JNull (JObj [(''Output'', JNum 2)])) = JStr (String_int 2)
   \<and> String_int 2 = ''2''
   \<and> decimal_form ''2'' 2
   \<and> Output (mergeOutput JNull (JObj [(''Output'', JFloat ''0.5'')])) = JStr ''0.5''
   \<and> Output (mergeOutput JNull (JObj [(''Output'', JBool False)])) = JBool False
   \<and> Output (mergeOutput JNull (JObj [(''Spawns'', JArr [JNum 1])])) = JStr []
   \<and> Spawns (mergeOutput JNull (JObj [(''Spawns'', JArr [JNum 1])])) = JArr [JNum 1]"
proof -
  have two: "String_int 2 = ''2''" "Number_isSafeInteger 2"
    by (simp_all add: String_int_def Number_isSafeInteger_def digits.simps digit_char_def)
  show ?thesis
    using mergeOutput_normalises [of JNull "JObj [(''Output'', JNum 2)]" 2 "[]" "[]" "[]"]
      mergeOutput_normalises [of JNull "JObj [(''Output'', JFloat ''0.5'')]" 0 "''0.5''" "[]" "[]"]
      mergeOutput_normalises [of JNull "JObj [(''Output'', JBool False)]" 0 "[]" "[]" "[]"]
      mergeOutput_normalises [of JNull "JObj [(''Spawns'', JArr [JNum 1])]" 0 "[]" "[]" "[]"]
    by (simp add: two)
qed

text \<open>
  An \<open>Output\<close> of \<^verbatim>\<open>NaN\<close> is a number, and it is not converted to a string form of it:
  \<^verbatim>\<open>pathOr\<close> replaces it by the empty string, as it does for an output without \<open>Output\<close>.
  And an \<open>Output\<close> of \<^verbatim>\<open>1e21\<close> becomes \<^verbatim>\<open>'1e+21'\<close>, in exponent notation, which is
  not the decimal numeral of the number.
\<close>

theorem mergeOutput_number_counterexample:
  "is_Number JNaN
   \<and> Output (mergeOutput JNull (JObj [(''Output'', JNaN)])) = JStr []
   \<and> mergeOutput JNull (JObj [(''Output'', JNaN)]) = mergeOutput JNull (JObj [])
   \<and> Output (mergeOutput JNull (JObj [(''Output'', JNum 1000000000000000000000)])) = JStr ''1e+21''
   \<and> \<not> decimal_form ''1e+21'' 1000000000000000000000"
  by (simp add: mergeOutput_def Let_def pathOr_def propOr_def defaultTo_def String_int_beyond
      decimal_form_def decimal_numeral_def)


subsection \<open>Errors never leave the worker\<close>

lemma invoke_Threw:
  "wasmInstance (prevMemory a) (message a) (AoGlobal a) = Threw err \<Longrightarrow>
     Memory (invoke wasmInstance a) = prevMemory a
     \<and> Error (invoke wasmInstance a) = (if defaulted err then JUndefined else err)"
  by (simp add: invoke_def mergeOutput_def Let_def pathOr_def propOr_def defaultTo_def)

lemma mergeOutput_Error_Memory:
  "truthy (Error (mergeOutput pm raw)) \<Longrightarrow> Memory (mergeOutput pm raw) = pm"
  by (simp add: mergeOutput_def Let_def)

lemma invoke_Error_Memory:
  "truthy (Error (invoke wasmInstance a)) \<Longrightarrow> Memory (invoke wasmInstance a) = prevMemory a"
  by (auto simp: invoke_def mergeOutput_Error_Memory split: outcome.splits)

lemma evaluate_resolved:
  "fst (resolveInstance env a w) = Inr wasmInstance \<Longrightarrow>
     fst (evaluate env a w) = Inr (invoke wasmInstance a)"
  by (cases "resolveInstance env a w") (simp add: evaluate_def)

lemma evaluate_Inr_invoke:
  "fst (evaluate env a w) = Inr out \<Longrightarrow>
     \<exists>wasmInstance. fst (resolveInstance env a w) = Inr wasmInstance \<and> out = invoke wasmInstance a"
  by (cases "resolveInstance env a w") (auto simp: evaluate_def split: sum.splits)

text \<open>
  Claim C1, as the code has it. Let the worker have resolved the instance to call (from
  the instance cache, or by loading it). Then the call resolves with an output whatever the
  handler does: the worker does not pass a throw of the handler on. If the handler throws
  \<open>err\<close>, the output has the memory the call was given, and its \<open>Error\<close> is \<open>err\<close> unless
  \<open>err\<close> is null, undefined or \<^verbatim>\<open>NaN\<close>, which \<^verbatim>\<open>pathOr\<close> does not read as a value. And
  whenever the \<open>Error\<close> of an output of the worker is truthy, which is what the merge tests,
  its memory is the memory the call was given.
\<close>

theorem evaluate_never_throws:
  "(fst (resolveInstance env a w) = Inr wasmInstance \<longrightarrow>
      (\<exists>out. fst (evaluate env a w) = Inr out))
   \<and> (fst (resolveInstance env a w) = Inr wasmInstance
        \<and> wasmInstance (prevMemory a) (message a) (AoGlobal a) = Threw err \<longrightarrow>
      (\<exists>out. fst (evaluate env a w) = Inr out
         \<and> Memory out = prevMemory a
         \<and> (\<not> defaulted err \<longrightarrow> Error out = err)))
   \<and> (\<forall>out. fst (evaluate env a w) = Inr out \<and> truthy (Error out) \<longrightarrow>
         Memory out = prevMemory a)"
proof -
  have resolves: "fst (resolveInstance env a w) = Inr wasmInstance \<longrightarrow>
      (\<exists>out. fst (evaluate env a w) = Inr out)"
    by (simp add: evaluate_resolved)
  have caught: "fst (resolveInstance env a w) = Inr wasmInstance
        \<and> wasmInstance (prevMemory a) (message a) (AoGlobal a) = Threw err \<longrightarrow>
      (\<exists>out. fst (evaluate env a w) = Inr out
         \<and> Memory out = prevMemory a
         \<and> (\<not> defaulted err \<longrightarrow> Error out = err))"
    using invoke_Threw [of wasmInstance a err] by (simp add: evaluate_resolved)
  have kept: "\<forall>out. fst (evaluate env a w) = Inr out \<and> truthy (Error out) \<longrightarrow>
         Memory out = prevMemory a"
    using evaluate_Inr_invoke [of env a w] invoke_Error_Memory [of _ a] by blast
  from resolves caught kept show ?thesis by blast
qed

text \<open>
  The examples: a worker with empty caches of capacity one and no files, and a gateway
  that serves the module \<open>m1\<close> and answers 404 for everything else. Compiling keeps the
  binary and every instance is the handler \<open>moody\<close>, which throws a string on the message
  \<open>boom\<close>, throws null on \<open>null\<close>, reports an error of its own on \<open>sad\<close>, returns an
  empty \<open>Error\<close> beside a new memory on \<open>blank\<close>, returns nothing on \<open>quiet\<close>, and
  otherwise answers with a new memory.
\<close>

definition moody :: handler where
  "moody mem msg glob =
     (if msg = JStr ''boom'' then Threw (JStr ''out of gas'')
      else if msg = JStr ''null'' then Threw JNull
      else if msg = JStr ''sad'' then
        Returned (JObj [(''Error'', JStr ''no''), (''Memory'', JStr ''bad'')])
      else if msg = JStr ''blank'' then
        Returned (JObj [(''Error'', JStr []), (''Memory'', JStr ''new'')])
      else if msg = JStr ''quiet'' then Returned JUndefined
      else Returned (JObj [(''Memory'', JStr ''next''), (''Output'', JNum 2)]))"

definition gateway :: "string \<Rightarrow> response option" where
  "gateway url =
     (if url = ''https://gw/raw/m1'' then Some \<lparr>status = 200, res_body = ''wasm''\<rparr>
      else Some \<lparr>status = 404, res_body = ''Not Found''\<rparr>)"

definition env0 :: "bytes collaborators" where
  "env0 = \<lparr>GATEWAY_URL = ''https://gw'', DIR = ''/bin'', fetch = gateway,
           createGzip = (\<lambda>b. ''gz:'' @ b), createGunzip = (\<lambda>z. Some (drop 3 z)),
           compileStreaming = Some, bootstrapWasmInstance = (\<lambda>m g l. Some moody),
           writable = (\<lambda>f. True)\<rparr>"

definition w0 :: "bytes worker" where
  "w0 = \<lparr>wasmModuleCache = \<lparr>lru_max = 1, lru_entries = []\<rparr>,
         wasmInstanceCache = \<lparr>lru_max = 1, lru_entries = []\<rparr>,
         files = Map.empty, requested = []\<rparr>"

definition args0 :: "jsval \<Rightarrow> args" where
  "args0 msg = \<lparr>streamId = ''s1'', moduleId = ''m1'', gas = 9000, memLimit = 9000,
               prevMemory = JStr ''old'', message = msg, AoGlobal = JObj []\<rparr>"

lemma resolveInstance_example: "fst (resolveInstance env0 (args0 msg) w0) = Inr moody"
  by (simp add: resolveInstance_def maybeCachedInstance_def lru_get_def loadInstance_def
      loadModule_def maybeStoredBinary_def loadTransaction_def streamTransactionData_def
      writeWasmFile_def wasm_file_def env0_def w0_def args0_def gateway_def ok_def Let_def)

lemma evaluate_example:
  "fst (evaluate env0 (args0 msg) w0) = Inr (invoke moody (args0 msg))"
  using resolveInstance_example [of msg] by (rule evaluate_resolved)

theorem evaluate_never_throws_witness:
  "(\<exists>out. fst (evaluate env0 (args0 (JStr ''boom'')) w0) = Inr out
        \<and> Memory out = JStr ''old'' \<and> Error out = JStr ''out of gas'')
   \<and> (\<exists>out. fst (evaluate env0 (args0 (JStr ''sad'')) w0) = Inr out
        \<and> truthy (Error out) \<and> Memory out = JStr ''old'')"
proof -
  have boom: "moody (prevMemory (args0 (JStr ''boom''))) (message (args0 (JStr ''boom'')))
      (AoGlobal (args0 (JStr ''boom''))) = Threw (JStr ''out of gas'')"
    by (simp add: moody_def args0_def)
  have old: "prevMemory (args0 msg) = JStr ''old''" for msg
    by (simp add: args0_def)
  have first: "\<exists>out. fst (evaluate env0 (args0 (JStr ''boom'')) w0) = Inr out
        \<and> Memory out = JStr ''old'' \<and> Error out = JStr ''out of gas''"
    using evaluate_never_throws [of env0 "args0 (JStr ''boom'')" w0 moody "JStr ''out of gas''"]
      resolveInstance_example [of "JStr ''boom''"] boom old
    by simp
  have sad: "fst (evaluate env0 (args0 (JStr ''sad'')) w0) = Inr (invoke moody (args0 (JStr ''sad'')))"
    by (rule evaluate_example)
  have err: "truthy (Error (invoke moody (args0 (JStr ''sad''))))"
    by (simp add: invoke_def moody_def args0_def mergeOutput_def Let_def pathOr_def defaultTo_def)
  have "Memory (invoke moody (args0 (JStr ''sad''))) = JStr ''old''"
    using evaluate_never_throws [of env0 "args0 (JStr ''sad'')" w0 moody JNull] sad err old
    by simp
  with sad err have second: "\<exists>out. fst (evaluate env0 (args0 (JStr ''sad'')) w0) = Inr out
        \<and> truthy (Error out) \<and> Memory out = JStr ''old''"
    by simp
  from first second show ?thesis by simp
qed

text \<open>
  Two calls where the claim as worded fails. A handler that throws null leaves no trace of
  the throw: the output has no \<open>Error\<close> and is the output of a handler that returned
  nothing. And an output whose \<open>Error\<close> is present but falsy (the empty string) keeps the
  memory the handler returned, not the memory the call was given.
\<close>

theorem evaluate_Error_counterexample:
  "fst (evaluate env0 (args0 (JStr ''null'')) w0) =
     Inr \<lparr>Memory = JStr ''old'', Error = JUndefined, Messages = JArr [], Spawns = JArr [],
          Output = JStr [], GasUsed = JUndefined\<rparr>
   \<and> fst (evaluate env0 (args0 (JStr ''null'')) w0) = fst (evaluate env0 (args0 (JStr ''quiet'')) w0)
   \<and> fst (evaluate env0 (args0 (JStr ''blank'')) w0) =
     Inr \<lparr>Memory = JStr ''new'', Error = JStr [], Messages = JArr [], Spawns = JArr [],
          Output = JStr [], GasUsed = JUndefined\<rparr>
   \<and> prevMemory (args0 (JStr ''blank'')) = JStr ''old''"
  unfolding evaluate_example
  by (simp add: invoke_def moody_def args0_def mergeOutput_def Let_def pathOr_def propOr_def
      defaultTo_def)


subsection \<open>Where a module comes from\<close>

lemma lru_get_miss: "fst (lru_get k c) = None \<Longrightarrow> lru_get k c = (None, c)"
  by (simp add: lru_get_def split: option.splits)

lemma lru_set_found: "0 < lru_max c \<Longrightarrow> fst (lru_get k (lru_set k v c)) = Some v"
  by (cases "lru_max c") (simp_all add: lru_get_def lru_set_def)

lemma loadModule_cached:
  assumes "fst (lru_get modId (wasmModuleCache w)) = Some wasm"
  shows "fst (loadModule env modId w) = Inr wasm"
    and "files (snd (loadModule env modId w)) = files w"
    and "requested (snd (loadModule env modId w)) = requested w"
  using assms by (cases "lru_get modId (wasmModuleCache w)"; simp add: loadModule_def)+

lemma loadModule_stored:
  assumes "fst (lru_get modId (wasmModuleCache w)) = None"
    and "maybeStoredBinary env w modId = Some wasm"
  shows "loadModule env modId w =
     (Inr wasm, w\<lparr>wasmModuleCache := lru_set modId wasm (wasmModuleCache w)\<rparr>)"
  using assms by (simp add: loadModule_def lru_get_miss)

lemma loadModule_gateway:
  assumes "fst (lru_get modId (wasmModuleCache w)) = None"
    and "maybeStoredBinary env w modId = None"
  shows "loadModule env modId w =
     (case loadTransaction env modId w of
        (Inl e, w') \<Rightarrow> (Inl e, w')
      | (Inr wasm, w') \<Rightarrow>
          (Inr wasm, w'\<lparr>wasmModuleCache := lru_set modId wasm (wasmModuleCache w')\<rparr>))"
  using assms by (simp add: loadModule_def lru_get_miss)

lemma maybeStoredBinary_Some:
  "maybeStoredBinary env w modId = Some wasm \<longleftrightarrow>
     (\<exists>zipped binary. files w (DIR env @ ''/'' @ modId @ ''.wasm.gz'') = Some zipped
        \<and> createGunzip env zipped = Some binary \<and> compileStreaming env binary = Some wasm)"
  by (auto simp: maybeStoredBinary_def wasm_file_def split: option.splits)

lemma loadTransaction_ok:
  assumes "fetch env (GATEWAY_URL env @ ''/raw/'' @ modId) = Some res" and "ok res"
  shows "loadTransaction env modId w =
     (case compileStreaming env (res_body res) of None \<Rightarrow> Inl LoadFailed | Some wasm \<Rightarrow> Inr wasm,
      writeWasmFile env modId (res_body res)
        (w\<lparr>requested := requested w @ [GATEWAY_URL env @ ''/raw/'' @ modId]\<rparr>))"
  using assms
  by (simp add: loadTransaction_def streamTransactionData_def Let_def split: option.splits)

lemma loadTransaction_not_ok:
  assumes "fetch env (GATEWAY_URL env @ ''/raw/'' @ modId) = Some res" and "\<not> ok res"
  shows "loadTransaction env modId w =
     (Inl (GatewayError (status res) (res_body res)),
      w\<lparr>requested := requested w @ [GATEWAY_URL env @ ''/raw/'' @ modId]\<rparr>)"
  using assms by (simp add: loadTransaction_def streamTransactionData_def Let_def)

text \<open>
  Claim C7. A module is looked for in three places, in this order.
  \<^enum> The cache of compiled modules: a module found there is the result; nothing is read,
    requested or written.
  \<^enum> Otherwise the file \<^verbatim>\<open><DIR>/<moduleId>.wasm.gz\<close>: when it is there, gunzips and
    compiles, the compiled module is the result and is put into the cache; the gateway is
    not asked.
  \<^enum> Otherwise the gateway: exactly one request, for \<^verbatim>\<open><GATEWAY_URL>/raw/<moduleId>\<close>. The
    body of an ok response goes both through gzip into the file (when the write succeeds)
    and to the compiler, and the compiled module is the result and is put into the cache.
    A response that is not ok, that is one whose status is not from 200 to 299, fails the
    load with its status and text; then no file is written and the cache keeps what it
    had.
\<close>

theorem loadModule_sources:
  "(fst (lru_get modId (wasmModuleCache w)) = Some cached \<longrightarrow>
      fst (loadModule env modId w) = Inr cached
      \<and> files (snd (loadModule env modId w)) = files w
      \<and> requested (snd (loadModule env modId w)) = requested w)
   \<and> (fst (lru_get modId (wasmModuleCache w)) = None
        \<and> files w (DIR env @ ''/'' @ modId @ ''.wasm.gz'') = Some zipped
        \<and> createGunzip env zipped = Some binary
        \<and> compileStreaming env binary = Some wasm \<longrightarrow>
      loadModule env modId w =
        (Inr wasm, w\<lparr>wasmModuleCache := lru_set modId wasm (wasmModuleCache w)\<rparr>))
   \<and> (fst (lru_get modId (wasmModuleCache w)) = None
        \<and> maybeStoredBinary env w modId = None
        \<and> fetch env (GATEWAY_URL env @ ''/raw/'' @ modId) = Some res \<and> ok res
        \<and> compileStreaming env (res_body res) = Some fetched \<longrightarrow>
      fst (loadModule env modId w) = Inr fetched
      \<and> requested (snd (loadModule env modId w)) =
          requested w @ [GATEWAY_URL env @ ''/raw/'' @ modId]
      \<and> files (snd (loadModule env modId w)) =
          (if writable env (DIR env @ ''/'' @ modId @ ''.wasm.gz'')
           then (files w)(DIR env @ ''/'' @ modId @ ''.wasm.gz'' \<mapsto> createGzip env (res_body res))
           else files w)
      \<and> wasmModuleCache (snd (loadModule env modId w)) =
          lru_set modId fetched (wasmModuleCache w))
   \<and> (fst (lru_get modId (wasmModuleCache w)) = None
        \<and> maybeStoredBinary env w modId = None
        \<and> fetch env (GATEWAY_URL env @ ''/raw/'' @ modId) = Some res \<and> \<not> ok res \<longrightarrow>
      loadModule env modId w =
        (Inl (GatewayError (status res) (res_body res)),
         w\<lparr>requested := requested w @ [GATEWAY_URL env @ ''/raw/'' @ modId]\<rparr>))"
proof -
  have hit: "fst (lru_get modId (wasmModuleCache w)) = Some cached \<longrightarrow>
      fst (loadModule env modId w) = Inr cached
      \<and> files (snd (loadModule env modId w)) = files w
      \<and> requested (snd (loadModule env modId w)) = requested w"
    by (simp add: loadModule_cached)
  have disk: "fst (lru_get modId (wasmModuleCache w)) = None
        \<and> files w (DIR env @ ''/'' @ modId @ ''.wasm.gz'') = Some zipped
        \<and> createGunzip env zipped = Some binary
        \<and> compileStreaming env binary = Some wasm \<longrightarrow>
      loadModule env modId w =
        (Inr wasm, w\<lparr>wasmModuleCache := lru_set modId wasm (wasmModuleCache w)\<rparr>)"
    using loadModule_stored [of modId w env wasm] maybeStoredBinary_Some [of env w modId wasm]
    by blast
  have served: "fst (lru_get modId (wasmModuleCache w)) = None
        \<and> maybeStoredBinary env w modId = None
        \<and> fetch env (GATEWAY_URL env @ ''/raw/'' @ modId) = Some res \<and> ok res
        \<and> compileStreaming env (res_body res) = Some fetched \<longrightarrow>
      fst (loadModule env modId w) = Inr fetched
      \<and> requested (snd (loadModule env modId w)) =
          requested w @ [GATEWAY_URL env @ ''/raw/'' @ modId]
      \<and> files (snd (loadModule env modId w)) =
          (if writable env (DIR env @ ''/'' @ modId @ ''.wasm.gz'')
           then (files w)(DIR env @ ''/'' @ modId @ ''.wasm.gz'' \<mapsto> createGzip env (res_body res))
           else files w)
      \<and> wasmModuleCache (snd (loadModule env modId w)) =
          lru_set modId fetched (wasmModuleCache w)"
    by (simp add: loadModule_gateway loadTransaction_ok writeWasmFile_def wasm_file_def)
  have refused: "fst (lru_get modId (wasmModuleCache w)) = None
        \<and> maybeStoredBinary env w modId = None
        \<and> fetch env (GATEWAY_URL env @ ''/raw/'' @ modId) = Some res \<and> \<not> ok res \<longrightarrow>
      loadModule env modId w =
        (Inl (GatewayError (status res) (res_body res)),
         w\<lparr>requested := requested w @ [GATEWAY_URL env @ ''/raw/'' @ modId]\<rparr>)"
    by (simp add: loadModule_gateway loadTransaction_not_ok)
  from hit disk served refused show ?thesis by blast
qed

text \<open>
  In the example nothing is cached and there is no file. The gateway serves \<open>m1\<close>, which
  ends in the cache and, gzipped, in the file; a second load finds it in the cache and a
  load from the file alone compiles what the file holds. The gateway answers 404 for
  \<open>m2\<close>, which fails the load.
\<close>

theorem loadModule_sources_witness:
  "fst (loadModule env0 ''m1'' w0) = Inr ''wasm''
   \<and> requested (snd (loadModule env0 ''m1'' w0)) = [''https://gw/raw/m1'']
   \<and> files (snd (loadModule env0 ''m1'' w0)) ''/bin/m1.wasm.gz'' = Some ''gz:wasm''
   \<and> fst (lru_get ''m1'' (wasmModuleCache (snd (loadModule env0 ''m1'' w0)))) = Some ''wasm''
   \<and> fst (loadModule env0 ''m1'' (snd (loadModule env0 ''m1'' w0))) = Inr ''wasm''
   \<and> requested (snd (loadModule env0 ''m1'' (snd (loadModule env0 ''m1'' w0)))) =
       [''https://gw/raw/m1'']
   \<and> fst (loadModule env0 ''m1'' (w0\<lparr>files := [''/bin/m1.wasm.gz'' \<mapsto> ''gz:code'']\<rparr>)) = Inr ''code''
   \<and> requested (snd (loadModule env0 ''m1'' (w0\<lparr>files := [''/bin/m1.wasm.gz'' \<mapsto> ''gz:code'']\<rparr>))) = []
   \<and> loadModule env0 ''m2'' w0 =
       (Inl (GatewayError 404 ''Not Found''), w0\<lparr>requested := [''https://gw/raw/m2'']\<rparr>)"
proof -
  let ?res = "\<lparr>status = 200, res_body = ''wasm''\<rparr>"
  let ?no = "\<lparr>status = 404, res_body = ''Not Found''\<rparr>"
  let ?w1 = "snd (loadModule env0 ''m1'' w0)"
  let ?wf = "w0\<lparr>files := [''/bin/m1.wasm.gz'' \<mapsto> ''gz:code'']\<rparr>"
  have miss: "fst (lru_get k (wasmModuleCache w0)) = None"
    "fst (lru_get k (wasmModuleCache ?wf)) = None" for k
    by (simp_all add: lru_get_def w0_def)
  have nofile: "maybeStoredBinary env0 w0 k = None" for k
    by (simp add: maybeStoredBinary_def w0_def)
  have gw: "fetch env0 (GATEWAY_URL env0 @ ''/raw/'' @ ''m1'') = Some ?res"
    "fetch env0 (GATEWAY_URL env0 @ ''/raw/'' @ ''m2'') = Some ?no"
    by (simp_all add: env0_def gateway_def)
  have first: "fst (loadModule env0 ''m1'' w0) = Inr ''wasm''
     \<and> requested ?w1 = [''https://gw/raw/m1'']
     \<and> files ?w1 ''/bin/m1.wasm.gz'' = Some ''gz:wasm''
     \<and> wasmModuleCache ?w1 = lru_set ''m1'' ''wasm'' (wasmModuleCache w0)"
    using loadModule_sources [of "''m1''" w0 undefined env0 undefined undefined undefined ?res "''wasm''"]
      miss nofile gw
    by (simp add: env0_def w0_def ok_def)
  then have cached: "fst (lru_get ''m1'' (wasmModuleCache ?w1)) = Some ''wasm''"
    by (simp add: lru_set_found w0_def)
  have again: "fst (loadModule env0 ''m1'' ?w1) = Inr ''wasm''
     \<and> requested (snd (loadModule env0 ''m1'' ?w1)) = [''https://gw/raw/m1'']"
    using loadModule_sources [of "''m1''" ?w1 "''wasm''" env0] cached first
    by simp
  have stored: "loadModule env0 ''m1'' ?wf =
      (Inr ''code'', ?wf\<lparr>wasmModuleCache := lru_set ''m1'' ''code'' (wasmModuleCache ?wf)\<rparr>)"
    using loadModule_sources [of "''m1''" ?wf undefined env0 "''gz:code''" "''code''" "''code''"] miss
    by (simp add: env0_def)
  have refused: "loadModule env0 ''m2'' w0 =
      (Inl (GatewayError 404 ''Not Found''), w0\<lparr>requested := [''https://gw/raw/m2'']\<rparr>)"
    using loadModule_sources [of "''m2''" w0 undefined env0 undefined undefined undefined ?no] miss nofile gw
    by (simp add: w0_def env0_def ok_def)
  have fromfile: "fst (loadModule env0 ''m1'' ?wf) = Inr ''code''"
    "requested (snd (loadModule env0 ''m1'' ?wf)) = []"
    unfolding stored by (simp_all add: w0_def)
  from first cached again fromfile refused show ?thesis
    by simp
qed


section \<open>Wire codec (connect/src/client/hb-encode.js)\<close>

subsection \<open>Strings and objects\<close>

text \<open>\<^verbatim>\<open>toLowerCase\<close> on ASCII text: the letters A to Z are replaced, everything else stays.\<close>

definition toLowerCase :: "string \<Rightarrow> string" where
  "toLowerCase s =
     map (\<lambda>c. case map_of (zip ''ABCDEFGHIJKLMNOPQRSTUVWXYZ'' ''abcdefghijklmnopqrstuvwxyz'') c of
                 None \<Rightarrow> c
               | Some l \<Rightarrow> l) s"

fun join :: "string \<Rightarrow> string list \<Rightarrow> string" where
  "join sep [] = []"
| "join sep [x] = x"
| "join sep (x # y # ys) = x @ sep @ join sep (y # ys)"

text \<open>
  An object under construction is the list of its properties in insertion order.
  \<^verbatim>\<open>obj[k] = v\<close> is \<open>AList.update k v\<close>: a key that is there keeps its place and gets
  the new value, a new key goes to the end. \<^verbatim>\<open>Object.assign\<close> does that for every
  property of its source, in order.
\<close>

definition Object_assign :: "(string \<times> 'v) list \<Rightarrow> (string \<times> 'v) list \<Rightarrow> (string \<times> 'v) list" where
  "Object_assign target source = foldl (\<lambda>t (k, v). AList.update k v t) target source"

definition Object_keys :: "(string \<times> 'v) list \<Rightarrow> string list" where
  "Object_keys obj = map fst obj"

subsection \<open>Flattening\<close>

datatype encode_error = CannotEncode jsval | TypeError

text \<open>The accumulator of the reduce: \<^verbatim>\<open>[flattened, types]\<close>.\<close>

type_synonym acc = "(string \<times> jsval) list \<times> (string \<times> string) list"

text \<open>
  \<^verbatim>\<open>hbEncodeValue\<close> returns the pair \<^verbatim>\<open>[type, value]\<close>, either of which may be
  undefined, or throws. The last line of the source calls \<^verbatim>\<open>value.toString()\<close>, which
  on null and undefined is a \<^verbatim>\<open>TypeError\<close> instead of the error it was building.
\<close>

fun hbEncodeValue :: "jsval \<Rightarrow> encode_error + (string option \<times> jsval)" where
  "hbEncodeValue (JBytes b) = Inr (None, if b = [] then JStr ''empty-binary'' else JBytes b)"
| "hbEncodeValue (JStr s) = Inr (None, if s = [] then JStr ''empty-binary'' else JStr s)"
| "hbEncodeValue (JArr []) = Inr (Some ''empty-list'', JUndefined)"
| "hbEncodeValue (JNum n) =
     Inr (Some (if Number_isFinite n then ''integer'' else ''float''), JStr (String_int n))"
| "hbEncodeValue (JFloat s) = Inr (Some ''float'', JStr s)"
| "hbEncodeValue JNaN = Inr (Some ''float'', JStr ''NaN'')"
| "hbEncodeValue (JSym d) = Inr (Some ''atom'', case d of None \<Rightarrow> JUndefined | Some s \<Rightarrow> JStr s)"
| "hbEncodeValue JUndefined = Inl TypeError"
| "hbEncodeValue JNull = Inl TypeError"
| "hbEncodeValue v = Inl (CannotEncode v)"

text \<open>\<^verbatim>\<open>store\<close>: the type and the value are recorded only when they are truthy.\<close>

fun store :: "string \<Rightarrow> string \<Rightarrow> acc \<Rightarrow> string option \<times> jsval \<Rightarrow> acc" where
  "store fullK curK (encoded, types) (ty, v) =
     (if truthy v then AList.update fullK v encoded else encoded,
      case ty of
        None \<Rightarrow> types
      | Some t \<Rightarrow> if t \<noteq> [] then AList.update curK t types else types)"

definition flatKey :: "string \<Rightarrow> string \<Rightarrow> string" where
  "flatKey parent key = toLowerCase (if parent \<noteq> [] then parent @ ''/'' @ key else key)"

text \<open>The last line of the reducer: \<^verbatim>\<open>store(flatK, key, acc, hbEncodeValue(value))\<close>.\<close>

definition leaf :: "string \<Rightarrow> jsval \<Rightarrow> string \<Rightarrow> acc \<Rightarrow> encode_error + acc" where
  "leaf key v parent dest =
     (case hbEncodeValue v of
        Inl e \<Rightarrow> Inl e
      | Inr tv \<Rightarrow> Inr (store (flatKey parent key) key dest tv))"

text \<open>
  The reduce over the entries of a string or a byte array: the keys are the indices and
  every value is a one-character string or a number, so every entry takes the last line
  of the reducer.
\<close>

fun reduceLeaves :: "jsval list \<Rightarrow> nat \<Rightarrow> string \<Rightarrow> acc \<Rightarrow> encode_error + acc" where
  "reduceLeaves [] i parent dest = Inr dest"
| "reduceLeaves (v # rest) i parent dest =
     (case leaf (digits i) v parent dest of
        Inl e \<Rightarrow> Inl e
      | Inr dest' \<Rightarrow> reduceLeaves rest (Suc i) parent dest')"

text \<open>The end of \<^verbatim>\<open>hbEncode\<close>: the \<^verbatim>\<open>ao-types\<close> key of the layer, when it has types.\<close>

fun withTypes :: "string \<Rightarrow> acc \<Rightarrow> (string \<times> jsval) list" where
  "withTypes parent (flattened, types) =
     (if types \<noteq> [] then
        AList.update (if parent \<noteq> [] then parent @ ''/ao-types'' else ''ao-types'')
          (JStr (join '','' (map (\<lambda>(key, ty). toLowerCase key @ ''='' @ ty) types))) flattened
      else flattened)"

text \<open>
  \<^verbatim>\<open>hbEncode (obj, parent)\<close>. \<^verbatim>\<open>Object.entries(obj)\<close> throws on null and undefined, lists
  the properties of an object, the indexed elements of an array, the indexed characters
  of a string and the indexed bytes of a byte array, and is empty for every other value.
  \<open>reduceEntries\<close> and \<open>reduceElements\<close> are the reduce over the entries of an object and
  of an array, \<open>reducer\<close> is its callback and \<open>forEach\<close> is the
  \<^verbatim>\<open>value.forEach\<close> of the callback, which calls \<^verbatim>\<open>hbEncode\<close> on every element of a
  non-empty array, whatever the element is.
\<close>

function (sequential)
    hbEncode :: "jsval \<Rightarrow> string \<Rightarrow> encode_error + (string \<times> jsval) list"
and reduceEntries :: "(string \<times> jsval) list \<Rightarrow> string \<Rightarrow> acc \<Rightarrow> encode_error + acc"
and reduceElements :: "jsval list \<Rightarrow> nat \<Rightarrow> string \<Rightarrow> acc \<Rightarrow> encode_error + acc"
and reducer :: "string \<Rightarrow> jsval \<Rightarrow> string \<Rightarrow> acc \<Rightarrow> encode_error + acc"
and forEach :: "jsval list \<Rightarrow> nat \<Rightarrow> string \<Rightarrow> (string \<times> jsval) list
                  \<Rightarrow> encode_error + (string \<times> jsval) list"
where
  "hbEncode JUndefined parent = Inl TypeError"
| "hbEncode JNull parent = Inl TypeError"
| "hbEncode (JObj kvs) parent =
     (case reduceEntries kvs parent ([], []) of
        Inl e \<Rightarrow> Inl e
      | Inr dest \<Rightarrow> Inr (withTypes parent dest))"
| "hbEncode (JArr vs) parent =
     (case reduceElements vs 0 parent ([], []) of
        Inl e \<Rightarrow> Inl e
      | Inr dest \<Rightarrow> Inr (withTypes parent dest))"
| "hbEncode (JStr s) parent =
     (case reduceLeaves (map (\<lambda>c. JStr [c]) s) 0 parent ([], []) of
        Inl e \<Rightarrow> Inl e
      | Inr dest \<Rightarrow> Inr (withTypes parent dest))"
| "hbEncode (JBytes b) parent =
     (case reduceLeaves (map (\<lambda>c. JNum (of_char c)) b) 0 parent ([], []) of
        Inl e \<Rightarrow> Inl e
      | Inr dest \<Rightarrow> Inr (withTypes parent dest))"
| "hbEncode v parent = Inr (withTypes parent ([], []))"
| "reduceEntries [] parent dest = Inr dest"
| "reduceEntries ((key, v) # rest) parent dest =
     (case reducer key v parent dest of
        Inl e \<Rightarrow> Inl e
      | Inr dest' \<Rightarrow> reduceEntries rest parent dest')"
| "reduceElements [] i parent dest = Inr dest"
| "reduceElements (v # rest) i parent dest =
     (case reducer (digits i) v parent dest of
        Inl e \<Rightarrow> Inl e
      | Inr dest' \<Rightarrow> reduceElements rest (Suc i) parent dest')"
| "reducer key JUndefined parent dest = Inr dest"
| "reducer key JNull parent dest = Inr dest"
| "reducer key (JArr []) parent dest = leaf key (JArr []) parent dest"
| "reducer key (JArr (v # vs)) parent dest =
     (case forEach (v # vs) 0 (flatKey parent key) (fst dest) of
        Inl e \<Rightarrow> Inl e
      | Inr flattened \<Rightarrow> Inr (flattened, snd dest))"
| "reducer key (JObj kvs) parent dest =
     (case hbEncode (JObj kvs) (flatKey parent key) of
        Inl e \<Rightarrow> Inl e
      | Inr nested \<Rightarrow> Inr (Object_assign (fst dest) nested, snd dest))"
| "reducer key v parent dest = leaf key v parent dest"
| "forEach [] i flatK flattened = Inr flattened"
| "forEach (v # vs) i flatK flattened =
     (case hbEncode v (flatK @ ''/'' @ digits i) of
        Inl e \<Rightarrow> Inl e
      | Inr nested \<Rightarrow> forEach vs (Suc i) flatK (Object_assign flattened nested))"
  by pat_completeness auto

termination
  by (relation "measure (\<lambda>x. case x of
      Inl (Inl (v, _)) \<Rightarrow> 2 * size v
    | Inl (Inr (kvs, _)) \<Rightarrow> 2 * size_list (size_prod (\<lambda>_. 0) size) kvs + 1
    | Inr (Inl (vs, _)) \<Rightarrow> 2 * size_list size vs + 1
    | Inr (Inr (Inl (_, v, _))) \<Rightarrow> 2 * size v + 1
    | Inr (Inr (Inr (vs, _))) \<Rightarrow> 2 * size_list size vs + 1)") auto


text \<open>
  The equations of \<open>hbEncode\<close> for a string and a byte array reduce with \<open>reduceLeaves\<close>;
  that is the reduce over the indexed elements, as for an array.
\<close>

lemma reduceElements_characters:
  "reduceElements (map (\<lambda>c. JStr [c]) s) i parent dest =
     reduceLeaves (map (\<lambda>c. JStr [c]) s) i parent dest"
  by (induction s arbitrary: i dest) (simp_all split: sum.splits)

lemma reduceElements_bytes:
  "reduceElements (map (\<lambda>c. JNum (of_char c)) b) i parent dest =
     reduceLeaves (map (\<lambda>c. JNum (of_char c)) b) i parent dest"
  by (induction b arbitrary: i dest) (simp_all split: sum.splits)

subsection \<open>Headers and the multipart body\<close>

text \<open>
  \<^verbatim>\<open>partition\<close>: a reduce that pushes every element onto the first list when the
  predicate holds and onto the second when it does not.
\<close>

definition partition_js :: "('a \<Rightarrow> bool) \<Rightarrow> 'a list \<Rightarrow> 'a list \<times> 'a list" where
  "partition_js pred arr =
     foldl (\<lambda>acc cur. if pred cur then (fst acc @ [cur], snd acc) else (fst acc, snd acc @ [cur]))
       ([], []) arr"

text \<open>
  \<^verbatim>\<open>flattened[key]\<close>, and the bytes \<^verbatim>\<open>Buffer.from\<close> and \<^verbatim>\<open>Blob\<close> make of a value: the
  text of a string, the content of a byte array. The flattening holds no other values
  (\<open>hbEncode_values\<close> below).
\<close>

definition get_prop :: "(string \<times> jsval) list \<Rightarrow> string \<Rightarrow> jsval" where
  "get_prop obj k = (case map_of obj k of None \<Rightarrow> JUndefined | Some v \<Rightarrow> v)"

fun bytes_of :: "jsval \<Rightarrow> bytes" where
  "bytes_of (JStr s) = s"
| "bytes_of (JBytes b) = b"
| "bytes_of _ = []"

text \<open>The predicate of the partition in \<^verbatim>\<open>encode\<close>, and the partition of the sorted keys.\<close>

definition inBody :: "(string \<times> jsval) list \<Rightarrow> string \<Rightarrow> bool" where
  "inBody flattened key =
     (if CHR ''/'' \<in> set key then True
      else length (bytes_of (get_prop flattened key)) > 4096)"

definition splitKeys :: "(string \<times> jsval) list \<Rightarrow> string list \<times> string list" where
  "splitKeys flattened = partition_js (inBody flattened) (sort (Object_keys flattened))"

text \<open>
  \<^verbatim>\<open>Headers\<close>, names in lower case: \<^verbatim>\<open>append\<close> adds a header or joins the new value to
  the one the name has, \<^verbatim>\<open>set\<close> replaces. The validation of names and values is not
  modelled.
\<close>

type_synonym Headers = "(string \<times> string) list"

definition Headers_append :: "string \<Rightarrow> string \<Rightarrow> Headers \<Rightarrow> Headers" where
  "Headers_append name v h =
     (case map_of h name of
        None \<Rightarrow> h @ [(name, v)]
      | Some old \<Rightarrow> AList.update name (old @ '', '' @ v) h)"

definition Headers_set :: "string \<Rightarrow> string \<Rightarrow> Headers \<Rightarrow> Headers" where
  "Headers_set name v h = AList.update name v h"

text \<open>The hash and the two base64 functions are the platform's and the library's.\<close>

record crypto =
  sha256 :: "bytes \<Rightarrow> bytes"
  base64url_encode :: "bytes \<Rightarrow> string"
  base64url_toBase64 :: "string \<Rightarrow> string"

record encoded =
  headers :: Headers
  body :: "bytes option"

definition CRLF :: string where
  "CRLF = [CHR 0x0D, CHR 0x0A]"

definition boundaryFrom :: "crypto \<Rightarrow> bytes list \<Rightarrow> string" where
  "boundaryFrom C bodyParts = base64url_encode C (sha256 C (join CRLF bodyParts))"

definition bodyPart :: "(string \<times> jsval) list \<Rightarrow> string \<Rightarrow> bytes" where
  "bodyPart flattened name =
     ''content-disposition: form-data;name='' @ [CHR 0x22] @ name @ [CHR 0x22] @ CRLF @ CRLF
       @ bytes_of (get_prop flattened name)"

text \<open>\<^verbatim>\<open>encode\<close> from the flattening on.\<close>

definition encodeFlattened :: "crypto \<Rightarrow> (string \<times> jsval) list \<Rightarrow> encoded" where
  "encodeFlattened C flattened =
     (case splitKeys flattened of
        (bodyKeys, headerKeys) \<Rightarrow>
          (let h = foldl (\<lambda>h key. Headers_append key (bytes_of (get_prop flattened key)) h)
                     [] headerKeys
           in if bodyKeys \<noteq> [] then
                (let bodyParts = map (bodyPart flattened) bodyKeys;
                     boundary = boundaryFrom C bodyParts;
                     blob = concat (map (\<lambda>p. ''--'' @ boundary @ CRLF @ p @ CRLF) bodyParts)
                              @ ''--'' @ boundary @ ''--'';
                     base64 = base64url_toBase64 C (base64url_encode C (sha256 C blob))
                 in \<lparr>headers =
                       Headers_append ''content-digest'' (''sha-256=:'' @ base64 @ '':'')
                         (Headers_set ''content-type''
                            (''multipart/form-data; boundary='' @ [CHR 0x22] @ boundary @ [CHR 0x22]) h),
                     body = Some blob\<rparr>)
              else \<lparr>headers = h, body = None\<rparr>))"

text \<open>
  \<^verbatim>\<open>encode (obj = {})\<close>: an undefined argument is the empty object. (The first line of
  the source compares an array with 0, which is never true, so it never returns early.)
\<close>

definition encode :: "crypto \<Rightarrow> jsval \<Rightarrow> encode_error + encoded" where
  "encode C obj =
     (case hbEncode (if obj = JUndefined then JObj [] else obj) [] of
        Inl e \<Rightarrow> Inl e
      | Inr flattened \<Rightarrow> Inr (encodeFlattened C flattened))"

definition Content_Digest :: "encode_error + encoded \<Rightarrow> string option" where
  "Content_Digest r = (case r of Inl e \<Rightarrow> None | Inr enc \<Rightarrow> map_of (headers enc) ''content-digest'')"


declare withTypes.simps [simp del] store.simps [simp del]

subsection \<open>What a flattening holds\<close>

text \<open>
  The keys of a flattening are distinct, as the keys of an object are, and its values are
  non-empty strings and non-empty byte arrays: the only values \<open>store\<close> keeps.
\<close>

fun wire_value :: "jsval \<Rightarrow> bool" where
  "wire_value (JStr s) = (s \<noteq> [])"
| "wire_value (JBytes b) = (b \<noteq> [])"
| "wire_value _ = False"

definition flat_ok :: "(string \<times> jsval) list \<Rightarrow> bool" where
  "flat_ok fl = (distinct (map fst fl) \<and> list_all (\<lambda>e. wire_value (snd e)) fl)"

lemma flat_ok_Nil: "flat_ok []"
  by (simp add: flat_ok_def)

lemma wire_update:
  "list_all (\<lambda>e. wire_value (snd e)) al \<Longrightarrow> wire_value v \<Longrightarrow>
     list_all (\<lambda>e. wire_value (snd e)) (AList.update k v al)"
  by (induction al) auto

lemma flat_ok_update: "flat_ok fl \<Longrightarrow> wire_value v \<Longrightarrow> flat_ok (AList.update k v fl)"
  by (simp add: flat_ok_def distinct_update wire_update)

lemma flat_ok_Object_assign: "flat_ok target \<Longrightarrow> flat_ok source \<Longrightarrow> flat_ok (Object_assign target source)"
proof -
  have "flat_ok t \<Longrightarrow> list_all (\<lambda>e. wire_value (snd e)) src \<Longrightarrow>
      flat_ok (foldl (\<lambda>t (k, v). AList.update k v t) t src)" for t src
    by (induction src arbitrary: t) (auto simp: flat_ok_update)
  then show "flat_ok target \<Longrightarrow> flat_ok source \<Longrightarrow> flat_ok (Object_assign target source)"
    by (simp add: Object_assign_def flat_ok_def)
qed

lemma truthy_wire: "hbEncodeValue v = Inr (ty, x) \<Longrightarrow> truthy x \<Longrightarrow> wire_value x"
  by (cases v rule: hbEncodeValue.cases) (auto split: if_splits option.splits)

lemma flat_ok_store:
  assumes "flat_ok (fst dest)" and "hbEncodeValue v = Inr tv"
  shows "flat_ok (fst (store fullK curK dest tv))"
proof (cases dest)
  case (Pair encoded types)
  obtain ty x where tv: "tv = (ty, x)" by (cases tv)
  show ?thesis
  proof (cases "truthy x")
    case True
    with assms(2) tv have "wire_value x" by (simp add: truthy_wire)
    with assms(1) Pair tv True show ?thesis by (simp add: store.simps flat_ok_update)
  next
    case False
    with assms(1) Pair tv show ?thesis by (simp add: store.simps)
  qed
qed

lemma flat_ok_leaf:
  "leaf key v parent dest = Inr dest' \<Longrightarrow> flat_ok (fst dest) \<Longrightarrow> flat_ok (fst dest')"
  by (auto simp: leaf_def flat_ok_store split: sum.splits)

lemma flat_ok_reduceLeaves:
  "reduceLeaves vs i parent dest = Inr dest' \<Longrightarrow> flat_ok (fst dest) \<Longrightarrow> flat_ok (fst dest')"
proof (induction vs arbitrary: i dest)
  case Nil
  then show ?case by simp
next
  case (Cons v vs)
  from Cons.prems(1) obtain d where d: "leaf (digits i) v parent dest = Inr d"
    and r: "reduceLeaves vs (Suc i) parent d = Inr dest'"
    by (auto split: sum.splits)
  from d Cons.prems(2) have "flat_ok (fst d)" by (rule flat_ok_leaf)
  with r show ?case by (rule Cons.IH)
qed

lemma join_nonempty: "x \<noteq> [] \<Longrightarrow> join sep (x # xs) \<noteq> []"
  by (cases xs) simp_all

lemma flat_ok_withTypes:
  assumes "flat_ok (fst dest)"
  shows "flat_ok (withTypes parent dest)"
proof (cases dest)
  case (Pair flattened types)
  show ?thesis
  proof (cases types)
    case Nil
    with assms Pair show ?thesis by (simp add: withTypes.simps)
  next
    case (Cons t ts)
    have "join '','' (map (\<lambda>(key, ty). toLowerCase key @ ''='' @ ty) (t # ts)) \<noteq> []"
      by (cases t) (simp add: join_nonempty)
    with assms Pair Cons show ?thesis
      by (simp add: withTypes.simps flat_ok_update del: join.simps)
  qed
qed

lemma flat_ok_flattening:
  "hbEncode v parent = Inr fl \<Longrightarrow> flat_ok fl"
  "reduceEntries kvs parent dest = Inr dest' \<Longrightarrow> flat_ok (fst dest) \<Longrightarrow> flat_ok (fst dest')"
  "reduceElements vs i parent dest = Inr dest' \<Longrightarrow> flat_ok (fst dest) \<Longrightarrow> flat_ok (fst dest')"
  "reducer key v parent dest = Inr dest' \<Longrightarrow> flat_ok (fst dest) \<Longrightarrow> flat_ok (fst dest')"
  "forEach vs i flatK flattened = Inr fl \<Longrightarrow> flat_ok flattened \<Longrightarrow> flat_ok fl"
proof (induction v parent and kvs parent dest and vs i parent dest and key v parent dest
    and vs i flatK flattened
    arbitrary: fl and dest' and dest' and dest' and fl
    rule: hbEncode_reduceEntries_reduceElements_reducer_forEach.induct)
qed (auto split: sum.splits dest: flat_ok_leaf flat_ok_reduceLeaves
      simp: flat_ok_withTypes flat_ok_Object_assign flat_ok_Nil)

lemma hbEncode_values: "hbEncode v parent = Inr fl \<Longrightarrow> list_all (\<lambda>e. wire_value (snd e)) fl"
  using flat_ok_flattening(1) [of v parent fl] by (simp add: flat_ok_def)

lemma hbEncode_distinct: "hbEncode v parent = Inr fl \<Longrightarrow> distinct (map fst fl)"
  using flat_ok_flattening(1) [of v parent fl] by (simp add: flat_ok_def)


subsection \<open>Arrays\<close>

lemmas hbEncode_eval =
  withTypes.simps leaf_def store.simps flatKey_def toLowerCase_def String_int_def
  Number_isSafeInteger_def Number_isFinite_safe digits.simps digit_char_def Object_assign_def

text \<open>
  Claim C5 is not what the code does. The callback hands every element of a non-empty
  array to \<^verbatim>\<open>hbEncode\<close>, which reads it as an object, not to \<^verbatim>\<open>hbEncodeValue\<close>. A
  number has no entries, so an array of numbers leaves nothing in the flattening, neither
  at \<open>a/0\<close> nor anywhere else; a string has one entry for each character, so it is spread
  over \<open>a/0/0\<close>, \<open>a/0/1\<close>, ... and \<open>a/0\<close> is not a leaf. Only elements that are objects
  are flattened under \<open>a/0\<close>, \<open>a/1\<close>, .... The object of the specification's codec scenario
  loses its array \<open>[10, 20]\<close> in the same way.
\<close>

theorem hbEncode_array_elements:
  "hbEncode (JObj [(''a'', JArr [JNum 10, JNum 20])]) [] = Inr []
   \<and> hbEncode (JObj [(''a'', JArr [JStr ''xy''])]) [] =
       Inr [(''a/0/0'', JStr ''x''), (''a/0/1'', JStr ''y'')]
   \<and> hbEncode (JObj [(''a'', JArr [JObj [(''k'', JStr ''v'')], JObj [(''k'', JStr ''w'')]])]) [] =
       Inr [(''a/0/k'', JStr ''v''), (''a/1/k'', JStr ''w'')]
   \<and> hbEncode (JObj [(''a'', JNum 1), (''b'', JStr ''x''),
                      (''c'', JObj [(''d'', JArr [JNum 10, JNum 20])])]) [] =
       Inr [(''a'', JStr ''1''), (''b'', JStr ''x''), (''ao-types'', JStr ''a=integer'')]"
  by (simp add: hbEncode_eval)

lemma hbEncode_number: "hbEncode (JNum n) parent = Inr []" "hbEncode (JFloat s) parent = Inr []"
  by (simp_all add: withTypes.simps)

lemma forEach_numbers: "forEach (map JNum ns) i flatK flattened = Inr flattened"
  by (induction ns arbitrary: i) (simp_all add: withTypes.simps Object_assign_def)

subsection \<open>Headers or body\<close>

text \<open>
  The examples use the identity for the hash and for the two base64 functions, so that a
  digest shows the body it was computed from.
\<close>

definition plain :: crypto where
  "plain = \<lparr>sha256 = (\<lambda>b. b), base64url_encode = (\<lambda>b. b), base64url_toBase64 = (\<lambda>s. s)\<rparr>"

lemma encode_JObj:
  "encode C (JObj kvs) =
     (case hbEncode (JObj kvs) [] of
        Inl e \<Rightarrow> Inl e
      | Inr flattened \<Rightarrow> Inr (encodeFlattened C flattened))"
  by (simp add: encode_def)

lemma partition_js_acc:
  "foldl (\<lambda>acc cur. if pred cur then (fst acc @ [cur], snd acc) else (fst acc, snd acc @ [cur]))
     (a, b) arr = (a @ filter pred arr, b @ filter (\<lambda>x. \<not> pred x) arr)"
  by (induction arr arbitrary: a b) simp_all

lemma partition_js_filter:
  "partition_js pred arr = (filter pred arr, filter (\<lambda>x. \<not> pred x) arr)"
  by (simp add: partition_js_def partition_js_acc)

lemma splitKeys_eq:
  "splitKeys fl = (filter (inBody fl) (sort (Object_keys fl)),
                   filter (\<lambda>k. \<not> inBody fl k) (sort (Object_keys fl)))"
  by (simp add: splitKeys_def partition_js_filter)








subsection \<open>The digest and the order of insertion\<close>

lemma get_prop_cong: "map_of f1 = map_of f2 \<Longrightarrow> get_prop f1 = get_prop f2"
  by (rule ext) (simp add: get_prop_def)

lemma sort_keys_cong:
  assumes "distinct (map fst f1)" "distinct (map fst f2)" "map_of f1 = map_of f2"
  shows "sort (Object_keys f1) = sort (Object_keys f2)"
proof -
  have "dom (map_of f1) = dom (map_of f2)" using assms(3) by simp
  then have "set (map fst f1) = set (map fst f2)"
    by (simp add: dom_map_of_conv_image_fst)
  with assms(1,2) show ?thesis
    unfolding Object_keys_def
    by (intro sorted_distinct_set_unique) simp_all
qed

lemma encodeFlattened_cong:
  assumes "distinct (map fst f1)" "distinct (map fst f2)" "map_of f1 = map_of f2"
  shows "encodeFlattened C f1 = encodeFlattened C f2"
proof -
  have g: "get_prop f1 = get_prop f2" using assms(3) by (rule get_prop_cong)
  have ib: "inBody f1 = inBody f2" by (rule ext) (simp add: inBody_def g)
  have bp: "bodyPart f1 = bodyPart f2" by (rule ext) (simp add: bodyPart_def g)
  have sk: "sort (Object_keys f1) = sort (Object_keys f2)" using assms by (rule sort_keys_cong)
  show ?thesis
    unfolding encodeFlattened_def splitKeys_def g ib bp sk by (rule refl)
qed

text \<open>
  What the sorting of the keys does give: the headers, the body and the digest depend on
  the flattening only through the value it gives to each key, not on the order in which
  the flattening lists its keys.
\<close>

lemma encode_depends_on_mapping:
  assumes "hbEncode (JObj a) [] = Inr fa" and "hbEncode (JObj b) [] = Inr fb"
    and "map_of fa = map_of fb"
  shows "encode C (JObj a) = encode C (JObj b)"
proof -
  from assms(1) have da: "distinct (map fst fa)" by (rule hbEncode_distinct)
  from assms(2) have db: "distinct (map fst fb)" by (rule hbEncode_distinct)
  from da db assms(3) have "encodeFlattened C fa = encodeFlattened C fb"
    by (rule encodeFlattened_cong)
  then show ?thesis
    unfolding encode_JObj assms(1,2) by simp
qed

lemmas encodeFlattened_eval =
  Content_Digest_def encodeFlattened_def get_prop_def bodyPart_def boundaryFrom_def plain_def
  CRLF_def Headers_append_def Headers_set_def Let_def

lemma flattening_a_b:
  "hbEncode (JObj [(''c'', JObj [(''a'', JNum 1), (''b'', JNum 2)])]) [] =
     Inr [(''c/a'', JStr ''1''), (''c/b'', JStr ''2''),
          (''c/ao-types'', JStr ''a=integer,b=integer'')]"
  by (simp add: hbEncode_eval)

lemma flattening_b_a:
  "hbEncode (JObj [(''c'', JObj [(''b'', JNum 2), (''a'', JNum 1)])]) [] =
     Inr [(''c/b'', JStr ''2''), (''c/a'', JStr ''1''),
          (''c/ao-types'', JStr ''b=integer,a=integer'')]"
  by (simp add: hbEncode_eval)

lemma splitKeys_a_b:
  "splitKeys [(''c/a'', JStr ''1''), (''c/b'', JStr ''2''),
              (''c/ao-types'', JStr ''a=integer,b=integer'')] =
     ([''c/a'', ''c/ao-types'', ''c/b''], [])"
  "splitKeys [(''c/b'', JStr ''2''), (''c/a'', JStr ''1''),
              (''c/ao-types'', JStr ''b=integer,a=integer'')] =
     ([''c/a'', ''c/ao-types'', ''c/b''], [])"
  by (simp_all add: splitKeys_eq inBody_def Object_keys_def)

lemma flattening_upper_lower:
  "hbEncode (JObj [(''c'', JObj [(''A'', JStr ''x''), (''a'', JStr ''y'')])]) [] =
     Inr [(''c/a'', JStr ''y'')]"
  "hbEncode (JObj [(''c'', JObj [(''a'', JStr ''y''), (''A'', JStr ''x'')])]) [] =
     Inr [(''c/a'', JStr ''x'')]"
  by (simp_all add: hbEncode_eval)

lemma digests_a_b:
  "Content_Digest (encode plain (JObj [(''c'', JObj [(''a'', JNum 1), (''b'', JNum 2)])])) \<noteq>
   Content_Digest (encode plain (JObj [(''c'', JObj [(''b'', JNum 2), (''a'', JNum 1)])]))"
  unfolding encode_JObj flattening_a_b flattening_b_a
  by (simp add: encodeFlattened_eval splitKeys_a_b)

lemma digests_upper_lower:
  "Content_Digest (encode plain (JObj [(''c'', JObj [(''A'', JStr ''x''), (''a'', JStr ''y'')])])) \<noteq>
   Content_Digest (encode plain (JObj [(''c'', JObj [(''a'', JStr ''y''), (''A'', JStr ''x'')])]))"
  unfolding encode_JObj flattening_upper_lower
  by (simp add: encodeFlattened_eval splitKeys_eq inBody_def Object_keys_def)

text \<open>
  Claim C6 is not what the code does. \<^verbatim>\<open>encode\<close> sorts the keys of the flattening, but
  the flattening itself follows the order of insertion in two places. The \<open>ao-types\<close>
  value of a layer lists the typed keys of the layer in the order of insertion, unsorted,
  and below the top layer it is a body part: the first two objects here hold the same two
  numbers under the same keys, inserted in the two possible orders, their flattenings
  differ in the value of \<open>c/ao-types\<close>, and so do their bodies and their digests (under
  the identity in the place of the hash, and so not under every hash). And keys that
  differ only in case are flattened to one key, which keeps the value inserted last: the
  last two objects hold the same values under the keys \<open>A\<close> and \<open>a\<close>, and their digests
  differ as well.
\<close>

theorem digest_follows_insertion_order:
  "hbEncode (JObj [(''c'', JObj [(''a'', JNum 1), (''b'', JNum 2)])]) [] =
     Inr [(''c/a'', JStr ''1''), (''c/b'', JStr ''2''),
          (''c/ao-types'', JStr ''a=integer,b=integer'')]
   \<and> hbEncode (JObj [(''c'', JObj [(''b'', JNum 2), (''a'', JNum 1)])]) [] =
     Inr [(''c/b'', JStr ''2''), (''c/a'', JStr ''1''),
          (''c/ao-types'', JStr ''b=integer,a=integer'')]
   \<and> Content_Digest (encode plain (JObj [(''c'', JObj [(''a'', JNum 1), (''b'', JNum 2)])])) \<noteq>
     Content_Digest (encode plain (JObj [(''c'', JObj [(''b'', JNum 2), (''a'', JNum 1)])]))
   \<and> \<not> (\<forall>C. Content_Digest (encode C (JObj [(''c'', JObj [(''a'', JNum 1), (''b'', JNum 2)])])) =
           Content_Digest (encode C (JObj [(''c'', JObj [(''b'', JNum 2), (''a'', JNum 1)])])))
   \<and> hbEncode (JObj [(''c'', JObj [(''A'', JStr ''x''), (''a'', JStr ''y'')])]) [] =
     Inr [(''c/a'', JStr ''y'')]
   \<and> hbEncode (JObj [(''c'', JObj [(''a'', JStr ''y''), (''A'', JStr ''x'')])]) [] =
     Inr [(''c/a'', JStr ''x'')]
   \<and> Content_Digest (encode plain (JObj [(''c'', JObj [(''A'', JStr ''x''), (''a'', JStr ''y'')])])) \<noteq>
     Content_Digest (encode plain (JObj [(''c'', JObj [(''a'', JStr ''y''), (''A'', JStr ''x'')])]))"
proof -
  have "\<not> (\<forall>C. Content_Digest (encode C (JObj [(''c'', JObj [(''a'', JNum 1), (''b'', JNum 2)])])) =
           Content_Digest (encode C (JObj [(''c'', JObj [(''b'', JNum 2), (''a'', JNum 1)])])))"
    using digests_a_b by blast
  with flattening_a_b flattening_b_a digests_a_b flattening_upper_lower digests_upper_lower
  show ?thesis by blast
qed


section \<open>Evaluator\<close>

text \<open>
  The evaluator itself (\<^verbatim>\<open>servers/cu/src/domain/lib/evaluate.js\<close>) is not among the
  sources; its test \<^verbatim>\<open>evaluate.test.js\<close> is. The definitions of this section follow
  section 4.7 of the specification.
\<close>

record cursor =
  cur_timestamp :: nat
  cur_blockHeight :: nat
  cur_ordinate :: nat
  cur_cron :: "string option"

text \<open>
  Modelled from the spec: an element of the message stream (section 3), the message (its tags, timestamp and block height,
  and the rest of it) with the fields the evaluator reads.
\<close>

record stream_message =
  noSave :: bool
  cron :: "string option"
  ordinate :: nat
  deepHash :: "string option"
  Timestamp :: nat
  Block_Height :: nat
  Tags :: "(string \<times> string) list"
  content :: jsval
  process_global :: jsval

record evaluation =
  ev_processId :: string
  ev_message :: stream_message
  ev_output :: EvaluationOutput
  ev_cursor :: cursor

record message_stats =
  scheduled :: nat
  crons :: nat
  errors :: nat

text \<open>
  Modelled from the spec: the context of a run, without its stream and its mutable parts. \<open>evaledCrons0\<close> is what
  the set of cron keys holds when the run starts: the specification does not say, and the
  test \<^verbatim>\<open>skip over Cron Messages that are already evaluated\<close> starts a run at a cron
  message (\<^verbatim>\<open>fromCron\<close>) and expects the copy of that message in the stream to be skipped.
\<close>

record EvaluationContext =
  ctx_id :: string
  ctx_from :: nat
  ctx_moduleId :: string
  moduleComputeLimit :: int
  moduleMemoryLimit :: int
  evaledCrons0 :: "(string \<times> nat \<times> nat) list"

text \<open>
  Modelled from the spec: the collaborators (section 6). \<open>findMessageHashBefore\<close> is asked with the evaluations this run has
  saved so far (what the run has changed in the store it queries), the hash, the process
  and the lower bound, and answers whether there is a prior record. \<open>loadEvaluator\<close> gives
  the handler for a module and its limits: the execution worker. Collaborators that fail
  (a persistence error ends the run) are not modelled.
\<close>

record collaborator_env =
  findMessageHashBefore :: "evaluation list \<Rightarrow> string \<Rightarrow> string \<Rightarrow> nat \<Rightarrow> bool"
  loadEvaluator :: "string \<Rightarrow> int \<Rightarrow> int \<Rightarrow> jsval \<Rightarrow> stream_message \<Rightarrow> jsval \<Rightarrow> EvaluationOutput"
  reservedTags :: "string list"

text \<open>
  Modelled from the spec: what a run changes, \<^verbatim>\<open>ctx.result\<close>, \<^verbatim>\<open>ctx.stats\<close>, the
  cursor, the set of cron keys, and, to state the claims, the calls it has made: the
  evaluations passed to \<^verbatim>\<open>saveEvaluation\<close>, the hashes looked up and the messages handed
  to the worker.
\<close>

record run =
  result :: EvaluationOutput
  stats :: message_stats
  last_cursor :: "cursor option"
  evaledCrons :: "(string \<times> nat \<times> nat) list"
  saveEvaluation_calls :: "evaluation list"
  hash_lookups :: "string list"
  invocations :: "stream_message list"

text \<open>Modelled from the spec: step 1, the stat bump.\<close>

definition bump :: "stream_message \<Rightarrow> message_stats \<Rightarrow> message_stats" where
  "bump m s = (case cron m of
                 None \<Rightarrow> s\<lparr>scheduled := scheduled s + 1\<rparr>
               | Some c \<Rightarrow> s\<lparr>crons := crons s + 1\<rparr>)"

text \<open>Modelled from the spec: step 2, the two checks for a duplicate.\<close>

definition hashFound :: "collaborator_env \<Rightarrow> EvaluationContext \<Rightarrow> run \<Rightarrow> stream_message \<Rightarrow> bool" where
  "hashFound env ctx st m =
     (case deepHash m of
        None \<Rightarrow> False
      | Some h \<Rightarrow> findMessageHashBefore env (saveEvaluation_calls st) h (ctx_id ctx) (ctx_from ctx))"

definition cronKey :: "stream_message \<Rightarrow> (string \<times> nat \<times> nat) option" where
  "cronKey m = (case cron m of None \<Rightarrow> None | Some c \<Rightarrow> Some (c, Timestamp m, ordinate m))"

definition cronSeen :: "run \<Rightarrow> stream_message \<Rightarrow> bool" where
  "cronSeen st m = (case cronKey m of None \<Rightarrow> False | Some k \<Rightarrow> k \<in> set (evaledCrons st))"

text \<open>Modelled from the spec: step 3, the tags the scheduler fills in are removed.\<close>

definition sanitise :: "collaborator_env \<Rightarrow> stream_message \<Rightarrow> stream_message" where
  "sanitise env m =
     m\<lparr>Tags := filter (\<lambda>t. fst t \<notin> set (''From'' # ''Owner'' # reservedTags env)) (Tags m)\<rparr>"

text \<open>Modelled from the spec: step 4, the call of the worker with the memory of \<^verbatim>\<open>ctx.result\<close>.\<close>

definition invocation ::
  "collaborator_env \<Rightarrow> EvaluationContext \<Rightarrow> run \<Rightarrow> stream_message \<Rightarrow> EvaluationOutput" where
  "invocation env ctx st m =
     loadEvaluator env (ctx_moduleId ctx) (moduleComputeLimit ctx) (moduleMemoryLimit ctx)
       (Memory (result st)) (sanitise env m) (process_global m)"

text \<open>Modelled from the spec: step 5, the fold: an error keeps the memory of before.\<close>

definition fold_output :: "EvaluationOutput \<Rightarrow> EvaluationOutput \<Rightarrow> EvaluationOutput" where
  "fold_output prev out = (if truthy (Error out) then out\<lparr>Memory := Memory prev\<rparr> else out)"

definition cursor_of :: "stream_message \<Rightarrow> cursor" where
  "cursor_of m = \<lparr>cur_timestamp = Timestamp m, cur_blockHeight = Block_Height m,
                  cur_ordinate = ordinate m, cur_cron = cron m\<rparr>"

text \<open>
  Modelled from the spec: the body of the evaluator's loop (section 4.7, steps 1 to 8), the
  code of which (\<^verbatim>\<open>evaluate.js\<close>) is missing. The statistics are bumped first. The hash
  is looked up when the message has one, and a message whose hash is found is skipped
  there: it is not invoked and not saved, and the loop continues with the next message.
  Then the key of a cron message is looked for in the set of keys seen in this run: a
  message whose key is in the set is skipped, and the key of any other cron message joins
  the set. A message that is not skipped is invoked without its reserved tags, the output
  is folded into the result, an error is counted, the evaluation is saved unless the
  message is marked \<^verbatim>\<open>noSave\<close> or the output has an error, and the cursor moves to the
  message.
\<close>

definition evalStep :: "collaborator_env \<Rightarrow> EvaluationContext \<Rightarrow> run \<Rightarrow> stream_message \<Rightarrow> run" where
  "evalStep env ctx st m =
     (let st1 = st\<lparr>stats := bump m (stats st)\<rparr>;
          found = hashFound env ctx st1 m;
          st2 = (case deepHash m of
                   None \<Rightarrow> st1
                 | Some h \<Rightarrow> st1\<lparr>hash_lookups := hash_lookups st1 @ [h]\<rparr>)
      in if found then st2
         else if cronSeen st2 m then st2
         else
           (let st3 = (case cronKey m of
                         None \<Rightarrow> st2
                       | Some k \<Rightarrow> st2\<lparr>evaledCrons := evaledCrons st2 @ [k]\<rparr>);
                out = fold_output (result st3) (invocation env ctx st3 m);
                st4 = st3\<lparr>invocations := invocations st3 @ [sanitise env m], result := out\<rparr>;
                st5 = (if truthy (Error out)
                       then st4\<lparr>stats := (stats st4)\<lparr>errors := errors (stats st4) + 1\<rparr>\<rparr>
                       else st4);
                st6 = (if \<not> noSave m \<and> \<not> truthy (Error out)
                       then st5\<lparr>saveEvaluation_calls := saveEvaluation_calls st5 @
                              [\<lparr>ev_processId = ctx_id ctx, ev_message = sanitise env m,
                                ev_output = out, ev_cursor = cursor_of m\<rparr>]\<rparr>
                       else st5)
            in st6\<lparr>last_cursor := Some (cursor_of m)\<rparr>))"

text \<open>
  Modelled from the spec: \<^verbatim>\<open>evaluate\<close> (section 4.7), the code of which is missing. The
  stream is consumed in order from the result and the statistics of the context; at its
  end the memory and the cursor are passed to \<^verbatim>\<open>saveLatestProcessMemory\<close>, once. The
  result is the run, from which \<^verbatim>\<open>{ output, last }\<close> are read, and the argument of that
  call.
\<close>

definition start :: "EvaluationContext \<Rightarrow> EvaluationOutput \<Rightarrow> message_stats \<Rightarrow> run" where
  "start ctx res st =
     \<lparr>result = res, stats = st, last_cursor = None, evaledCrons = evaledCrons0 ctx,
      saveEvaluation_calls = [], hash_lookups = [], invocations = []\<rparr>"

definition evaluate_stream ::
  "collaborator_env \<Rightarrow> EvaluationContext \<Rightarrow> EvaluationOutput \<Rightarrow> message_stats
     \<Rightarrow> stream_message list \<Rightarrow> run \<times> (string \<times> jsval \<times> cursor option)" where
  "evaluate_stream env ctx res st messages =
     (let final = foldl (evalStep env ctx) (start ctx res st) messages
      in (final, (ctx_id ctx, Memory (result final), last_cursor final)))"

subsection \<open>What a step reads and what it leaves alone\<close>

lemma hashFound_stats [simp]:
  "hashFound env ctx (st\<lparr>stats := s\<rparr>) m = hashFound env ctx st m"
  by (simp add: hashFound_def split: option.splits)

lemma cronSeen_updates [simp]:
  "cronSeen (st\<lparr>stats := s\<rparr>) m = cronSeen st m"
  "cronSeen (st\<lparr>hash_lookups := l\<rparr>) m = cronSeen st m"
  by (simp_all add: cronSeen_def split: option.splits)

lemma invocation_updates [simp]:
  "invocation env ctx (st\<lparr>stats := s\<rparr>) m = invocation env ctx st m"
  "invocation env ctx (st\<lparr>hash_lookups := l\<rparr>) m = invocation env ctx st m"
  "invocation env ctx (st\<lparr>evaledCrons := c\<rparr>) m = invocation env ctx st m"
  by (simp_all add: invocation_def)

lemma Error_fold_output [simp]: "Error (fold_output prev out) = Error out"
  by (simp add: fold_output_def)

text \<open>The step of a message that is skipped, and the step of one that is not.\<close>

lemma evalStep_skipped:
  assumes "hashFound env ctx st m \<or> cronSeen st m"
  shows "result (evalStep env ctx st m) = result st"
    and "last_cursor (evalStep env ctx st m) = last_cursor st"
    and "saveEvaluation_calls (evalStep env ctx st m) = saveEvaluation_calls st"
    and "invocations (evalStep env ctx st m) = invocations st"
  using assms
  by (auto simp: evalStep_def Let_def split: option.splits)

lemma evalStep_evaluated:
  assumes "\<not> hashFound env ctx st m" and "\<not> cronSeen st m"
  shows "result (evalStep env ctx st m) = fold_output (result st) (invocation env ctx st m)"
    and "last_cursor (evalStep env ctx st m) = Some (cursor_of m)"
    and "invocations (evalStep env ctx st m) = invocations st @ [sanitise env m]"
    and "saveEvaluation_calls (evalStep env ctx st m) =
          (if \<not> noSave m \<and> \<not> truthy (Error (invocation env ctx st m))
           then saveEvaluation_calls st @
                  [\<lparr>ev_processId = ctx_id ctx, ev_message = sanitise env m,
                    ev_output = fold_output (result st) (invocation env ctx st m),
                    ev_cursor = cursor_of m\<rparr>]
           else saveEvaluation_calls st)"
  using assms
  by (auto simp: evalStep_def Let_def split: option.splits)



lemma fst_evaluate_stream:
  "fst (evaluate_stream env ctx res s messages) = foldl (evalStep env ctx) (start ctx res s) messages"
  by (simp add: evaluate_stream_def Let_def)

subsection \<open>Which messages are saved\<close>

text \<open>
  Claim C2. A message of the stream that is not skipped as a duplicate is invoked, and
  \<^verbatim>\<open>saveEvaluation\<close> is called for it, once and with the output of its invocation, exactly
  when that output has no error and the message is not marked \<^verbatim>\<open>noSave\<close>; for every
  other message the calls stay as they were, so the evaluation of an invocation that
  produced an error is never saved. A stream of three messages, the first of them marked
  \<^verbatim>\<open>noSave\<close>, none of them a duplicate and none with an error, ends with two calls.
\<close>

theorem saveEvaluation_iff:
  "(\<not> hashFound env ctx st m \<and> \<not> cronSeen st m \<longrightarrow>
      ((\<exists>ev. saveEvaluation_calls (evalStep env ctx st m) = saveEvaluation_calls st @ [ev]
             \<and> ev_message ev = sanitise env m
             \<and> ev_output ev = result (evalStep env ctx st m))
         \<longleftrightarrow> \<not> truthy (Error (invocation env ctx st m)) \<and> \<not> noSave m)
      \<and> (truthy (Error (invocation env ctx st m)) \<or> noSave m \<longrightarrow>
            saveEvaluation_calls (evalStep env ctx st m) = saveEvaluation_calls st))
   \<and> (hashFound env ctx st m \<or> cronSeen st m \<longrightarrow>
        saveEvaluation_calls (evalStep env ctx st m) = saveEvaluation_calls st)
   \<and> (noSave m1 \<and> \<not> noSave m2 \<and> \<not> noSave m3
        \<and> (\<forall>x \<in> {m1, m2, m3}. deepHash x = None \<and> cron x = None)
        \<and> (\<forall>mem msg g. \<not> truthy (Error (loadEvaluator env (ctx_moduleId ctx)
               (moduleComputeLimit ctx) (moduleMemoryLimit ctx) mem msg g))) \<longrightarrow>
        length (saveEvaluation_calls (fst (evaluate_stream env ctx res s [m1, m2, m3]))) = 2)"
proof -
  have evaluated: "\<not> hashFound env ctx st m \<and> \<not> cronSeen st m \<longrightarrow>
      ((\<exists>ev. saveEvaluation_calls (evalStep env ctx st m) = saveEvaluation_calls st @ [ev]
             \<and> ev_message ev = sanitise env m
             \<and> ev_output ev = result (evalStep env ctx st m))
         \<longleftrightarrow> \<not> truthy (Error (invocation env ctx st m)) \<and> \<not> noSave m)
      \<and> (truthy (Error (invocation env ctx st m)) \<or> noSave m \<longrightarrow>
            saveEvaluation_calls (evalStep env ctx st m) = saveEvaluation_calls st)"
    by (auto simp: evalStep_evaluated)
  have skipped: "hashFound env ctx st m \<or> cronSeen st m \<longrightarrow>
        saveEvaluation_calls (evalStep env ctx st m) = saveEvaluation_calls st"
    by (simp add: evalStep_skipped)
  have three: "length (saveEvaluation_calls (fst (evaluate_stream env ctx res s [m1, m2, m3]))) = 2"
    if flags: "noSave m1" "\<not> noSave m2" "\<not> noSave m3"
      and plain: "\<forall>x \<in> {m1, m2, m3}. deepHash x = None \<and> cron x = None"
      and fine: "\<forall>mem msg g. \<not> truthy (Error (loadEvaluator env (ctx_moduleId ctx)
               (moduleComputeLimit ctx) (moduleMemoryLimit ctx) mem msg g))"
  proof -
    have go: "\<not> hashFound env ctx st' x \<and> \<not> cronSeen st' x" if "x \<in> {m1, m2, m3}" for st' x
      using plain that by (auto simp: hashFound_def cronSeen_def cronKey_def)
    have ok: "\<not> truthy (Error (invocation env ctx st' x))" for st' x
      using fine by (simp add: invocation_def)
    let ?s0 = "start ctx res s"
    let ?s1 = "evalStep env ctx ?s0 m1"
    let ?s2 = "evalStep env ctx ?s1 m2"
    let ?s3 = "evalStep env ctx ?s2 m3"
    have "saveEvaluation_calls ?s0 = []" by (simp add: start_def)
    then have "length (saveEvaluation_calls ?s1) = 0"
      using go [of m1 ?s0] flags(1) by (simp add: evalStep_evaluated)
    then have "length (saveEvaluation_calls ?s2) = 1"
      using go [of m2 ?s1] flags(2) ok [of ?s1 m2] by (simp add: evalStep_evaluated)
    then have "length (saveEvaluation_calls ?s3) = 2"
      using go [of m3 ?s2] flags(3) ok [of ?s2 m3] by (simp add: evalStep_evaluated)
    then show ?thesis by (simp add: fst_evaluate_stream)
  qed
  from evaluated skipped three show ?thesis by blast
qed


text \<open>
  In the example the handler answers with an error when the message has the tag
  \<open>fail\<close> and with a new memory otherwise, and no hash has a prior record.
\<close>

definition tagged :: "string \<Rightarrow> bool \<Rightarrow> stream_message" where
  "tagged t quiet =
     \<lparr>noSave = quiet, cron = None, ordinate = 1, deepHash = None, Timestamp = 1702846520559,
      Block_Height = 1234, Tags = [(''From'', ''me''), (''function'', t)], content = JNull,
      process_global = JNull\<rparr>"

definition counting :: "jsval \<Rightarrow> stream_message \<Rightarrow> jsval \<Rightarrow> EvaluationOutput" where
  "counting mem msg g =
     (if (''function'', ''fail'') \<in> set (Tags msg)
      then \<lparr>Memory = JStr ''broken'', Error = JStr ''failed'', Messages = JArr [],
            Spawns = JArr [], Output = JStr [], GasUsed = JUndefined\<rparr>
      else \<lparr>Memory = JStr ''next'', Error = JUndefined, Messages = JArr [],
            Spawns = JArr [], Output = JStr ''ok'', GasUsed = JUndefined\<rparr>)"

definition env1 :: collaborator_env where
  "env1 = \<lparr>findMessageHashBefore = (\<lambda>saved h p lower. h = ''deephash-456''),
           loadEvaluator = (\<lambda>moduleId gas memLimit. counting), reservedTags = []\<rparr>"

definition ctx1 :: EvaluationContext where
  "ctx1 = \<lparr>ctx_id = ''ctr-1234'', ctx_from = 1702846520559, ctx_moduleId = ''foo-module'',
           moduleComputeLimit = 9000000000000, moduleMemoryLimit = 9000000000000,
           evaledCrons0 = []\<rparr>"

definition res1 :: EvaluationOutput where
  "res1 = \<lparr>Memory = JNull, Error = JUndefined, Messages = JArr [], Spawns = JArr [],
           Output = JStr [], GasUsed = JUndefined\<rparr>"

definition stats1 :: message_stats where
  "stats1 = \<lparr>scheduled = 0, crons = 0, errors = 0\<rparr>"

theorem saveEvaluation_iff_witness:
  "saveEvaluation_calls (evalStep env1 ctx1 (start ctx1 res1 stats1) (tagged ''fail'' False)) = []
   \<and> saveEvaluation_calls (evalStep env1 ctx1 (start ctx1 res1 stats1) (tagged ''hello'' True)) = []
   \<and> length (saveEvaluation_calls
        (evalStep env1 ctx1 (start ctx1 res1 stats1) (tagged ''hello'' False))) = 1
   \<and> saveEvaluation_calls (evalStep env1 ctx1 (start ctx1 res1 stats1)
        ((tagged ''hello'' False)\<lparr>deepHash := Some ''deephash-456''\<rparr>)) = []
   \<and> length (saveEvaluation_calls (fst (evaluate_stream
        (env1\<lparr>loadEvaluator := (\<lambda>moduleId gas memLimit mem msg g. res1)\<rparr>) ctx1 res1 stats1
        [tagged ''hello'' True, tagged ''hello'' False, tagged ''world'' False]))) = 2"
proof -
  let ?s = "start ctx1 res1 stats1"
  let ?happy = "env1\<lparr>loadEvaluator := (\<lambda>moduleId gas memLimit mem msg g. res1)\<rparr>"
  let ?dup = "(tagged ''hello'' False)\<lparr>deepHash := Some ''deephash-456''\<rparr>"
  have none: "saveEvaluation_calls ?s = []"
    by (simp add: start_def)
  have go: "\<not> hashFound env1 ctx1 ?s (tagged t q) \<and> \<not> cronSeen ?s (tagged t q)" for t q
    by (simp add: hashFound_def cronSeen_def cronKey_def tagged_def)
  have found: "hashFound env1 ctx1 ?s ?dup"
    by (simp add: hashFound_def env1_def tagged_def)
  have failed: "truthy (Error (invocation env1 ctx1 ?s (tagged ''fail'' False)))"
    by (simp add: invocation_def env1_def counting_def sanitise_def tagged_def)
  have fine: "\<not> truthy (Error (invocation env1 ctx1 ?s (tagged ''hello'' q)))" for q
    by (simp add: invocation_def env1_def counting_def sanitise_def tagged_def)
  have flags: "noSave (tagged t True)" "\<not> noSave (tagged t False)" for t
    by (simp_all add: tagged_def)
  have a: "saveEvaluation_calls (evalStep env1 ctx1 ?s (tagged ''fail'' False)) = saveEvaluation_calls ?s"
    using saveEvaluation_iff [of env1 ctx1 ?s "tagged ''fail'' False"] go failed by blast
  have b: "saveEvaluation_calls (evalStep env1 ctx1 ?s (tagged ''hello'' True)) = saveEvaluation_calls ?s"
    using saveEvaluation_iff [of env1 ctx1 ?s "tagged ''hello'' True"] go flags by blast
  have "\<exists>ev. saveEvaluation_calls (evalStep env1 ctx1 ?s (tagged ''hello'' False)) =
      saveEvaluation_calls ?s @ [ev]"
    using saveEvaluation_iff [of env1 ctx1 ?s "tagged ''hello'' False"] go fine flags by blast
  then have c: "length (saveEvaluation_calls (evalStep env1 ctx1 ?s (tagged ''hello'' False))) = 1"
    using none by auto
  have d: "saveEvaluation_calls (evalStep env1 ctx1 ?s ?dup) = saveEvaluation_calls ?s"
    using saveEvaluation_iff [of env1 ctx1 ?s ?dup] found by blast
  have plain: "\<forall>x \<in> {tagged ''hello'' True, tagged ''hello'' False, tagged ''world'' False}.
      deepHash x = None \<and> cron x = None"
    by (simp add: tagged_def)
  have never: "\<forall>mem msg g. \<not> truthy (Error (loadEvaluator ?happy (ctx_moduleId ctx1)
      (moduleComputeLimit ctx1) (moduleMemoryLimit ctx1) mem msg g))"
    by (simp add: res1_def)
  have e: "length (saveEvaluation_calls (fst (evaluate_stream ?happy ctx1 res1 stats1
      [tagged ''hello'' True, tagged ''hello'' False, tagged ''world'' False]))) = 2"
    using saveEvaluation_iff [of ?happy ctx1 ?s "tagged ''hello'' True" "tagged ''hello'' True"
        "tagged ''hello'' False" "tagged ''world'' False" res1 stats1] flags plain never
    by blast
  from a b c d e none show ?thesis by simp
qed

subsection \<open>Duplicates\<close>
















text \<open>
  In the example the hash \<open>deephash-456\<close> has a prior record, and the stream holds the
  cron message of the key \<open>(1-20-minutes, 1702846520600, 2)\<close> twice.
\<close>

definition every20 :: stream_message where
  "every20 = (tagged ''world'' False)
     \<lparr>cron := Some ''1-20-minutes'', ordinate := 2, Timestamp := 1702846520600\<rparr>"



lemmas run_eval =
  fst_evaluate_stream evalStep_def Let_def bump_def hashFound_def cronSeen_def cronKey_def
  invocation_def fold_output_def sanitise_def cursor_of_def start_def
  tagged_def counting_def env1_def ctx1_def res1_def stats1_def every20_def



subsection \<open>The scenarios of the test file\<close>

text \<open>
  The streams of \<^verbatim>\<open>evaluate.test.js\<close>, with the handler of the examples in the place of
  the test's Wasm modules. Three messages of which the second has a hash with a prior
  record: two evaluations are saved and two hashes are looked up. Five messages, the first
  a cron message at the point the run starts from and the fourth a copy of the third: three
  evaluations are saved. Three messages of which the first produces an error: the other
  two are saved and one error is counted.
\<close>

definition hashed :: "string \<Rightarrow> string \<Rightarrow> stream_message" where
  "hashed t h = (tagged t False)\<lparr>deepHash := Some h\<rparr>"

definition every10 :: stream_message where
  "every10 = (tagged ''hello'' False)
     \<lparr>cron := Some ''1-10-minutes'', deepHash := Some ''deephash-123''\<rparr>"

lemma scenario_deepHash:
  "length (saveEvaluation_calls (fst (evaluate_stream env1 ctx1 res1 stats1
      [hashed ''hello'' ''deephash-123'', hashed ''world'' ''deephash-456'',
       tagged ''world'' False]))) = 2
   \<and> hash_lookups (fst (evaluate_stream env1 ctx1 res1 stats1
      [hashed ''hello'' ''deephash-123'', hashed ''world'' ''deephash-456'',
       tagged ''world'' False])) = [''deephash-123'', ''deephash-456'']"
  by (simp add: run_eval hashed_def)

lemma scenario_cron:
  "length (saveEvaluation_calls (fst (evaluate_stream
      (env1\<lparr>findMessageHashBefore := (\<lambda>saved h p lower. False)\<rparr>)
      (ctx1\<lparr>evaledCrons0 := [(''1-10-minutes'', 1702846520559, 1)]\<rparr>) res1 stats1
      [every10, hashed ''world'' ''deephash-456'', every20, every20,
       hashed ''world'' ''deephash-789'']))) = 3"
  by (simp add: run_eval hashed_def every10_def)

lemma scenario_error:
  "length (saveEvaluation_calls (fst (evaluate_stream env1 ctx1 res1 stats1
      [tagged ''fail'' False, tagged ''counter'' False, tagged ''counter'' False]))) = 2
   \<and> errors (stats (fst (evaluate_stream env1 ctx1 res1 stats1
      [tagged ''fail'' False, tagged ''counter'' False, tagged ''counter'' False]))) = 1
   \<and> Memory (result (evalStep env1 ctx1 (start ctx1 res1 stats1) (tagged ''fail'' False))) = JNull"
  by (simp add: run_eval)

lemma scenario_tags:
  "Tags (sanitise env1 \<lparr>noSave = False, cron = None, ordinate = 1, deepHash = None,
      Timestamp = 1702846520559, Block_Height = 1234,
      Tags = [(''From'', ''hello''), (''function'', ''hello''), (''Owner'', ''hello'')],
      content = JNull, process_global = JNull\<rparr>) = [(''function'', ''hello'')]"
  by (simp add: sanitise_def env1_def)

end
